theory Spec2Isabelle
  imports Complex_Main
begin

section \<open>JavaScript strings\<close>

text \<open>
  A JavaScript string is a sequence of UTF-16 code units; \<open>length\<close>, indexing and
  the regular expressions of the sources (none carries the \<open>u\<close> flag) all work on
  code units. A code unit is modelled as a natural number below 65536. String
  literals of the sources are written \<open>js ''...''\<close> where they are ASCII, and with
  explicit code units where they are not (\<open>176\<close> is the degree sign U+00B0,
  \<open>178\<close> is superscript two U+00B2, \<open>51704\<close> is the Hangul syllable U+C9F8).
\<close>

type_synonym jsstring = "nat list"

definition js :: "string \<Rightarrow> jsstring" where
  "js s = map of_char s"

text \<open>\<open>WhiteSpace\<close> and \<open>LineTerminator\<close> of ECMAScript: what \<open>\s\<close> matches and
  what \<open>trim\<close> removes.\<close>

definition isLineTerminator :: "nat \<Rightarrow> bool" where
  "isLineTerminator c = (c = 10 \<or> c = 13 \<or> c = 8232 \<or> c = 8233)"

definition isSpace :: "nat \<Rightarrow> bool" where
  "isSpace c = (c = 9 \<or> c = 11 \<or> c = 12 \<or> c = 32 \<or> c = 160 \<or> c = 5760
     \<or> (8192 \<le> c \<and> c \<le> 8202) \<or> c = 8239 \<or> c = 8287 \<or> c = 12288 \<or> c = 65279
     \<or> isLineTerminator c)"

definition isDigit :: "nat \<Rightarrow> bool" where
  "isDigit c = (48 \<le> c \<and> c \<le> 57)"

definition isUpperAZ :: "nat \<Rightarrow> bool" where
  "isUpperAZ c = (65 \<le> c \<and> c \<le> 90)"

definition isLowerAZ :: "nat \<Rightarrow> bool" where
  "isLowerAZ c = (97 \<le> c \<and> c \<le> 122)"

text \<open>
  \<open>Canonicalize\<close> of a regular expression with the \<open>i\<close> flag and without the
  \<open>u\<close> flag maps a code unit to its upper case, except that a code unit from 128
  on is never mapped below 128. Every pattern character of the sources is an
  ASCII character or U+C9F8, which has no case, so canonical equality with a
  pattern character is decided by the ASCII letters alone.
\<close>

definition canonicalize :: "nat \<Rightarrow> nat" where
  "canonicalize c = (if isLowerAZ c then c - 32 else c)"

definition trim :: "jsstring \<Rightarrow> jsstring" where
  "trim s = rev (dropWhile isSpace (rev (dropWhile isSpace s)))"

text \<open>\<open>s.split('\n')\<close>: always at least one piece.\<close>

fun split_nl :: "jsstring \<Rightarrow> jsstring list" where
  "split_nl [] = [[]]"
| "split_nl (c # cs) =
     (if c = 10 then [] # split_nl cs
      else (case split_nl cs of [] \<Rightarrow> [[c]] | l # ls \<Rightarrow> (c # l) # ls))"

text \<open>\<open>toUpperCase\<close> on a string of ASCII letters and digits, which is all the
  extractor applies it to (the section group is \<open>[A-Z0-9]{1,2}\<close>).\<close>

definition toUpperCase :: "jsstring \<Rightarrow> jsstring" where
  "toUpperCase s = map canonicalize s"

section \<open>Regular expressions (src/services/regexService.ts)\<close>

text \<open>
  The backtracking matcher of ECMAScript, in the continuation-passing form the
  language specification gives it: a matcher takes the continuation that matches
  the rest of the pattern, the rest of the input and the captures so far, and
  returns the captures of the first successful alternative in priority order.
  Quantifiers are applied to character classes only, as in the two patterns of
  the source.
\<close>

datatype cclass = Dot | Space | AlnumI | Digit | LitI nat

fun in_class :: "cclass \<Rightarrow> nat \<Rightarrow> bool" where
  "in_class Dot c = (\<not> isLineTerminator c)"
| "in_class Space c = isSpace c"
| "in_class AlnumI c = (isUpperAZ c \<or> isLowerAZ c \<or> isDigit c)"
| "in_class Digit c = isDigit c"
| "in_class (LitI p) c = (canonicalize c = canonicalize p)"

datatype regex =
    Class cclass
  | Seq regex regex
  | Alt regex regex
  | Opt regex
  | Star cclass
  | Plus cclass
  | LazyPlus cclass
  | Group nat regex
  | Eps
  | Eol

type_synonym captures = "nat \<rightharpoonup> jsstring"
type_synonym cont = "jsstring \<Rightarrow> captures \<Rightarrow> captures option"

fun star_greedy :: "cclass \<Rightarrow> cont \<Rightarrow> jsstring \<Rightarrow> captures \<Rightarrow> captures option" where
  "star_greedy cl k [] c = k [] c"
| "star_greedy cl k (x # xs) c =
     (if in_class cl x
      then (case star_greedy cl k xs c of Some r \<Rightarrow> Some r | None \<Rightarrow> k (x # xs) c)
      else k (x # xs) c)"

fun plus_lazy :: "cclass \<Rightarrow> cont \<Rightarrow> jsstring \<Rightarrow> captures \<Rightarrow> captures option" where
  "plus_lazy cl k [] c = None"
| "plus_lazy cl k (x # xs) c =
     (if in_class cl x
      then (case k xs c of Some r \<Rightarrow> Some r | None \<Rightarrow> plus_lazy cl k xs c)
      else None)"

primrec rmatch :: "regex \<Rightarrow> cont \<Rightarrow> jsstring \<Rightarrow> captures \<Rightarrow> captures option" where
  "rmatch (Class cl) = (\<lambda>k s c. case s of [] \<Rightarrow> None
       | x # xs \<Rightarrow> if in_class cl x then k xs c else None)"
| "rmatch (Seq a b) = (\<lambda>k. rmatch a (rmatch b k))"
| "rmatch (Alt a b) = (\<lambda>k s c. case rmatch a k s c of Some r \<Rightarrow> Some r
       | None \<Rightarrow> rmatch b k s c)"
| "rmatch (Opt a) = (\<lambda>k s c. case rmatch a k s c of Some r \<Rightarrow> Some r
       | None \<Rightarrow> k s c)"
| "rmatch (Star cl) = (\<lambda>k s c. star_greedy cl k s c)"
| "rmatch (Plus cl) = (\<lambda>k s c. case s of [] \<Rightarrow> None
       | x # xs \<Rightarrow> if in_class cl x then star_greedy cl k xs c else None)"
| "rmatch (LazyPlus cl) = (\<lambda>k s c. plus_lazy cl k s c)"
| "rmatch (Group n a) = (\<lambda>k s c.
       rmatch a (\<lambda>s' c'. k s' (c'(n \<mapsto> take (length s - length s') s))) s c)"
| "rmatch Eps = (\<lambda>k s c. k s c)"
| "rmatch Eol = (\<lambda>k s c. if s = [] then k s c else None)"

text \<open>\<open>str.match(/^...$/i)\<close> without the \<open>g\<close> flag: the pattern starts with
  \<open>^\<close> and has no \<open>m\<close> flag, so it can only match from index 0.\<close>

definition js_match :: "regex \<Rightarrow> jsstring \<Rightarrow> captures option" where
  "js_match re s = rmatch re (\<lambda>s' c. Some c) s Map.empty"

text \<open>A literal word of a pattern, every character compared case-insensitively.\<close>

definition word :: "jsstring \<Rightarrow> regex" where
  "word w = foldr (\<lambda>c r. Seq (Class (LitI c)) r) w Eps"

definition seqs :: "regex list \<Rightarrow> regex" where
  "seqs rs = foldr Seq rs Eps"

definition alts :: "regex \<Rightarrow> regex list \<Rightarrow> regex" where
  "alts r rs = foldr (\<lambda>a b. Alt a b) (butlast (r # rs)) (last (r # rs))"

text \<open>\<open>[A-Z0-9]{1,2}\<close>, greedy.\<close>

definition alnum12 :: regex where
  "alnum12 = Seq (Class AlnumI) (Opt (Class AlnumI))"

text \<open>\<open>(?:S|Section|Sec\.?|Sect\.?)\<close>\<close>

definition sectionMarker :: regex where
  "sectionMarker = alts (word (js ''S''))
     [word (js ''Section''),
      Seq (word (js ''Sec'')) (Opt (Class (LitI 46))),
      Seq (word (js ''Sect'')) (Opt (Class (LitI 46)))]"

text \<open>The number marker as the source file has it: its first alternative is
  \<open>N\<close> followed by the code unit U+C9F8, the later ones are \<open>No\<close>, \<open>N\<close>, \<open>Num\<close>
  and \<open>Numero\<close>.\<close>

definition numberMarker :: regex where
  "numberMarker = alts (word [78, 51704])
     [word (js ''No''), word (js ''N''), word (js ''Num''), word (js ''Numero'')]"

text \<open>Pattern 1 (line 21) and pattern 2 (line 35) of \<open>parseParcelTextRegex\<close>.\<close>

definition pattern1 :: regex where
  "pattern1 = seqs
     [Group 1 (LazyPlus Dot), Plus Space, sectionMarker, Plus Space,
      Group 2 alnum12, Plus Space, Opt numberMarker, Opt (Class (LitI 46)),
      Star Space, Group 3 (Plus Digit), Eol]"

definition pattern2 :: regex where
  "pattern2 = seqs
     [Group 1 (LazyPlus Dot), Plus Space, Group 2 alnum12, Plus Space,
      Group 3 (Plus Digit), Eol]"

record ParcelQuery =
  communeName :: jsstring
  section' :: jsstring
  numero :: jsstring

text \<open>A group that took part in a match is defined; \<open>grp\<close> reads it.\<close>

definition grp :: "captures \<Rightarrow> nat \<Rightarrow> jsstring" where
  "grp m n = (case m n of Some s \<Rightarrow> s | None \<Rightarrow> [])"

definition toQuery :: "captures \<Rightarrow> ParcelQuery" where
  "toQuery m = \<lparr>communeName = trim (grp m 1), section' = toUpperCase (grp m 2),
     numero = grp m 3\<rparr>"

definition parseLine :: "jsstring \<Rightarrow> ParcelQuery list" where
  "parseLine line =
     (let cleanLine = trim line in
      case js_match pattern1 cleanLine of
        Some m \<Rightarrow> [toQuery m]
      | None \<Rightarrow>
         (case js_match pattern2 cleanLine of
            Some m \<Rightarrow> [toQuery m]
          | None \<Rightarrow> []))"

definition parseParcelTextRegex :: "jsstring \<Rightarrow> ParcelQuery list" where
  "parseParcelTextRegex inputText =
     concat (map parseLine (filter (\<lambda>line. trim line \<noteq> []) (split_nl inputText)))"


section \<open>Data model (types.ts)\<close>

text \<open>
  GeoJSON as the sources read it. A position is a pair (longitude, latitude);
  numbers are modelled as real numbers (the sources compute with IEEE doubles;
  rounding of the arithmetic is not modelled). A GeoJSON value is typed \<open>any\<close>
  in the sources; the model keeps the three members the sources read: \<open>type\<close>,
  \<open>features\<close> and \<open>geometry\<close>, the last two possibly absent.
\<close>

type_synonym position = "real \<times> real"
type_synonym ring = "position list"

datatype geometry = Polygon "ring list" | MultiPolygon "ring list list" | OtherGeometry

datatype feature = Feature (f_geometry: "geometry option")

datatype geojson =
  GeoJson (gj_type: jsstring) (gj_features: "feature list option") (gj_geometry: "geometry option")

datatype Status = Pending | Loading | Success | Error

record ParsedParcel = ParcelQuery +
  id' :: jsstring
  rawText :: jsstring
  inseeCode :: "jsstring option"
  status :: Status
  geoJson :: "geojson option"
  errorMessage :: "jsstring option"

record InseeResponse =
  nom :: jsstring
  code :: jsstring
  codesPostaux :: "jsstring list"

datatype ParseStatus = IDLE | PARSING_TEXT | FETCHING_INSEE | FETCHING_GEOMETRY | COMPLETED

section \<open>Exceptions, the network and the observable state\<close>

datatype exn = Exception (exn_name: jsstring) (message: jsstring)

text \<open>What a parsed response body can be: \<open>null\<close>, the commune array of the
  geocoding service, or a GeoJSON object of the cadastre service.\<close>

datatype json = JNull | JCommunes "InseeResponse list" | JGeo geojson

text \<open>\<open>response.json()\<close> rejects on a body that does not parse.\<close>

datatype body = Unparsable | Parsed json

text \<open>\<open>fetch\<close> rejects on a transport error, or resolves to a response with its
  \<open>ok\<close> flag and body.\<close>

datatype fetch_result = NetworkError | Response bool body

text \<open>The network is an environment: what the \<open>n\<close>-th request of the session
  (counted from 0) returns for a URL. The same URL may be answered differently
  at different times.\<close>

type_synonym network = "nat \<Rightarrow> jsstring \<Rightarrow> fetch_result"

text \<open>
  The React state of \<open>App\<close> that \<open>handleProcess\<close> writes, together with two
  histories that make its effects observable: every list passed to
  \<open>setParcels\<close>, oldest first, and every URL passed to \<open>fetch\<close>, oldest first.
\<close>

record World =
  parcels :: "ParsedParcel list"
  appStatus :: ParseStatus
  progressMessage :: jsstring
  selectedParcelId :: "jsstring option"
  measurementsVisibleIds :: "jsstring set"
  published :: "ParsedParcel list list"
  requests :: "jsstring list"

definition setParcels :: "ParsedParcel list \<Rightarrow> World \<Rightarrow> World" where
  "setParcels ps w = w\<lparr>parcels := ps, published := published w @ [ps]\<rparr>"

definition fetch :: "network \<Rightarrow> jsstring \<Rightarrow> World \<Rightarrow> fetch_result \<times> World" where
  "fetch net url w = (net (length (requests w)) url, w\<lparr>requests := requests w @ [url]\<rparr>)"

definition fetchFailed :: exn where
  "fetchFailed = Exception (js ''TypeError'') (js ''Failed to fetch'')"

definition jsonSyntaxError :: exn where
  "jsonSyntaxError = Exception (js ''SyntaxError'') (js ''Unexpected token'')"

section \<open>The two lookups (services/cadastreService.ts)\<close>

definition API_GEO_URL :: jsstring where
  "API_GEO_URL = js ''https://geo.api.gouv.fr''"

definition API_CARTO_URL :: jsstring where
  "API_CARTO_URL = js ''https://apicarto.ign.fr/api/cadastre''"

text \<open>\<open>s.padStart(n, c)\<close> with a one-character filler.\<close>

definition padStart :: "nat \<Rightarrow> nat \<Rightarrow> jsstring \<Rightarrow> jsstring" where
  "padStart n c s = replicate (n - length s) c @ s"

definition communeUrl :: "jsstring \<Rightarrow> jsstring" where
  "communeUrl q = API_GEO_URL @ js ''/communes?nom='' @ q
     @ js ''&fields=code&boost=population&limit=1''"

definition parcelleUrl :: "jsstring \<Rightarrow> jsstring \<Rightarrow> jsstring \<Rightarrow> jsstring" where
  "parcelleUrl insee sec formattedNumero = API_CARTO_URL @ js ''/parcelle?code_insee='' @ insee
     @ js ''&section='' @ sec @ js ''&numero='' @ formattedNumero"

text \<open>
  The body of the \<open>try\<close> block of \<open>getInseeCode\<close>. \<open>encodeURIComponent\<close> is a
  builtin that throws on a lone surrogate; it is a parameter \<open>enc\<close>. A commune
  array is the declared type of the parsed body; of any other body
  \<open>data && data.length > 0\<close> is false.
\<close>

definition getInseeCode_try ::
  "network \<Rightarrow> (jsstring \<Rightarrow> exn + jsstring) \<Rightarrow> jsstring \<Rightarrow> World
     \<Rightarrow> (exn + jsstring option) \<times> World" where
  "getInseeCode_try net enc name w =
     (case enc name of
        Inl e \<Rightarrow> (Inl e, w)
      | Inr q \<Rightarrow>
         (case fetch net (communeUrl q) w of
            (NetworkError, w') \<Rightarrow> (Inl fetchFailed, w')
          | (Response ok b, w') \<Rightarrow>
             if \<not> ok then (Inr None, w')
             else (case b of
                     Unparsable \<Rightarrow> (Inl jsonSyntaxError, w')
                   | Parsed (JCommunes (d # ds)) \<Rightarrow> (Inr (Some (code d)), w')
                   | Parsed _ \<Rightarrow> (Inr None, w'))))"

text \<open>\<open>try { ... } catch (error) { console.error(...); return null; }\<close>\<close>

definition getInseeCode ::
  "network \<Rightarrow> (jsstring \<Rightarrow> exn + jsstring) \<Rightarrow> jsstring \<Rightarrow> World
     \<Rightarrow> (exn + jsstring option) \<times> World" where
  "getInseeCode net enc name w =
     (case getInseeCode_try net enc name w of
        (Inl e, w') \<Rightarrow> (Inr None, w')
      | (Inr r, w') \<Rightarrow> (Inr r, w'))"

text \<open>The body of the \<open>try\<close> block of \<open>getParcelGeometry\<close>; \<open>JNull\<close> is its
  \<open>null\<close>.\<close>

definition getParcelGeometry_try ::
  "network \<Rightarrow> jsstring \<Rightarrow> jsstring \<Rightarrow> jsstring \<Rightarrow> World \<Rightarrow> (exn + json) \<times> World" where
  "getParcelGeometry_try net insee sec num w =
     (let formattedNumero = padStart 4 48 num in
      case fetch net (parcelleUrl insee sec formattedNumero) w of
        (NetworkError, w1) \<Rightarrow> (Inl fetchFailed, w1)
      | (Response ok b, w1) \<Rightarrow>
         if \<not> ok then
           (if length sec = 1 then
              (case fetch net (parcelleUrl insee (48 # sec) formattedNumero) w1 of
                 (NetworkError, w2) \<Rightarrow> (Inl fetchFailed, w2)
               | (Response ok2 b2, w2) \<Rightarrow>
                  if ok2 then
                    (case b2 of Unparsable \<Rightarrow> (Inl jsonSyntaxError, w2)
                     | Parsed j \<Rightarrow> (Inr j, w2))
                  else (Inr JNull, w2))
            else (Inr JNull, w1))
         else (case b of Unparsable \<Rightarrow> (Inl jsonSyntaxError, w1)
               | Parsed j \<Rightarrow> (Inr j, w1)))"

definition getParcelGeometry ::
  "network \<Rightarrow> jsstring \<Rightarrow> jsstring \<Rightarrow> jsstring \<Rightarrow> World \<Rightarrow> (exn + json) \<times> World" where
  "getParcelGeometry net insee sec num w =
     (case getParcelGeometry_try net insee sec num w of
        (Inl e, w') \<Rightarrow> (Inr JNull, w')
      | (Inr r, w') \<Rightarrow> (Inr r, w'))"


section \<open>The resolution run (handleProcess of App.tsx)\<close>

text \<open>The decimal digits of a number, as a template literal prints an index or
  \<open>Date.now()\<close>.\<close>

fun decimal :: "nat \<Rightarrow> jsstring" where
  "decimal n = (if n < 10 then [48 + n] else decimal (n div 10) @ [48 + n mod 10])"

declare decimal.simps [simp del]

text \<open>\<open>parsedRaw.map((p, idx) => ({ id: `p-${idx}-${Date.now()}`, ... }))\<close>;
  \<open>now idx\<close> is what \<open>Date.now()\<close> returns when element \<open>idx\<close> is mapped.\<close>

definition initialParcel :: "(nat \<Rightarrow> nat) \<Rightarrow> nat \<Rightarrow> ParcelQuery \<Rightarrow> ParsedParcel" where
  "initialParcel now idx p =
     \<lparr>communeName = communeName p, section' = section' p, numero = numero p,
      id' = js ''p-'' @ decimal idx @ js ''-'' @ decimal (now idx),
      rawText = communeName p @ [32] @ section' p @ [32] @ numero p,
      inseeCode = None, status = Pending, geoJson = None, errorMessage = None\<rparr>"

definition initialParcels :: "(nat \<Rightarrow> nat) \<Rightarrow> ParcelQuery list \<Rightarrow> ParsedParcel list" where
  "initialParcels now parsedRaw = map (\<lambda>(idx, p). initialParcel now idx p) (enumerate 0 parsedRaw)"

text \<open>\<open>geoJson && geoJson.features && geoJson.features.length > 0\<close>: the
  GeoJSON object when the test holds.\<close>

definition withFeatures :: "json \<Rightarrow> geojson option" where
  "withFeatures j =
     (case j of
        JGeo g \<Rightarrow> (case gj_features g of
                     Some (f # fs) \<Rightarrow> Some g
                   | _ \<Rightarrow> None)
      | _ \<Rightarrow> None)"

text \<open>
  One iteration of the \<open>for\<close> loop, on the local array \<open>updatedParcels\<close> and the
  world. The \<open>continue\<close> of the commune branch leaves the iteration before the
  \<open>setParcels\<close> call that ends it. An \<open>await\<close> that rejects leaves the loop with
  the exception.
\<close>

definition resolveRecord ::
  "network \<Rightarrow> (jsstring \<Rightarrow> exn + jsstring) \<Rightarrow> nat \<Rightarrow> ParsedParcel list \<times> World
     \<Rightarrow> (exn + unit) \<times> ParsedParcel list \<times> World" where
  "resolveRecord net enc i st =
     (case st of (updatedParcels, w) \<Rightarrow>
      let p = updatedParcels ! i;
          ups1 = updatedParcels[i := p\<lparr>status := Loading\<rparr>];
          w1 = setParcels ups1 w
      in case getInseeCode net enc (communeName p) w1 of
           (Inl e, w2) \<Rightarrow> (Inl e, ups1, w2)
         | (Inr insee, w2) \<Rightarrow>
            if insee = None \<or> insee = Some [] then
              (Inr (), ups1[i := p\<lparr>status := Error,
                              errorMessage := Some (js ''Commune not found'')\<rparr>], w2)
            else
              (case getParcelGeometry net (case insee of Some c \<Rightarrow> c | None \<Rightarrow> []) (section' p) (numero p) w2 of
                 (Inl e, w3) \<Rightarrow> (Inl e, ups1, w3)
               | (Inr j, w3) \<Rightarrow>
                  let ups2 =
                    (case withFeatures j of
                       Some g \<Rightarrow> ups1[i := p\<lparr>inseeCode := insee, geoJson := Some g,
                                            status := Success\<rparr>]
                     | None \<Rightarrow> ups1[i := p\<lparr>inseeCode := insee, status := Error,
                          errorMessage := Some (js ''Parcel geometry not found in Cadastre'')\<rparr>])
                  in (Inr (), ups2, setParcels ups2 w3)))"

text \<open>\<open>for (let i = 0; i < updatedParcels.length; i++) { ... }\<close> from index \<open>i\<close> on.\<close>

function resolveFrom ::
  "network \<Rightarrow> (jsstring \<Rightarrow> exn + jsstring) \<Rightarrow> nat \<Rightarrow> ParsedParcel list \<times> World
     \<Rightarrow> (exn + unit) \<times> ParsedParcel list \<times> World" where
  "resolveFrom net enc i st =
     (if i < length (fst st) then
        (case resolveRecord net enc i st of
           (Inl e, st') \<Rightarrow> (Inl e, st')
         | (Inr u, st') \<Rightarrow> resolveFrom net enc (Suc i) st')
      else (Inr (), st))"
  by pat_completeness auto
termination
proof (relation "measure (\<lambda>(net, enc, i, st). length (fst st) - i)", goal_cases)
  case 1
  show ?case by simp
next
  case (2 net enc i st x y u)
  obtain ups w where st: "st = (ups, w)" by (cases st)
  obtain ups' w' where y: "y = (ups', w')" by (cases y)
  from 2 st y have "length ups' = length ups"
    by (auto simp: resolveRecord_def Let_def
        split: prod.splits sum.splits if_splits option.splits)
  with 2 st y show ?case by simp
qed

declare resolveFrom.simps [simp del]

text \<open>
  The extraction step: the remote extractor is a parameter \<open>ai\<close> (it returns the
  triples or rejects); the deterministic extractor throws when it finds nothing.
\<close>

definition noParcelsError :: exn where
  "noParcelsError = Exception (js ''Error'')
     (js ''No parcels detected using Regex mode. Try checking your format or enable AI analysis.'')"

definition extractParcels ::
  "(jsstring \<Rightarrow> exn + ParcelQuery list) \<Rightarrow> bool \<Rightarrow> jsstring \<Rightarrow> World
     \<Rightarrow> (exn + ParcelQuery list) \<times> World" where
  "extractParcels ai useAiParsing inputText w =
     (if useAiParsing then
        (ai inputText, w\<lparr>progressMessage := js ''Asking AI to interpret parcel data...''\<rparr>)
      else
        (let w' = w\<lparr>progressMessage := js ''Parsing text locally...''\<rparr>;
             parsedRaw = parseParcelTextRegex inputText
         in if length parsedRaw = 0 then (Inl noParcelsError, w') else (Inr parsedRaw, w')))"

text \<open>The \<open>catch\<close> block of \<open>handleProcess\<close>.\<close>

definition onError :: "exn \<Rightarrow> World \<Rightarrow> World" where
  "onError e w = w\<lparr>appStatus := IDLE,
     progressMessage := (if message e \<noteq> [] then message e
                         else js ''An error occurred during processing.'')\<rparr>"

text \<open>\<open>handleProcess\<close>: the final local array \<open>updatedParcels\<close> (empty when the run
  did not reach the loop) and the final world.\<close>

definition handleProcess ::
  "network \<Rightarrow> (jsstring \<Rightarrow> exn + jsstring) \<Rightarrow> (jsstring \<Rightarrow> exn + ParcelQuery list)
     \<Rightarrow> (nat \<Rightarrow> nat) \<Rightarrow> bool \<Rightarrow> jsstring \<Rightarrow> World \<Rightarrow> ParsedParcel list \<times> World" where
  "handleProcess net enc ai now useAiParsing inputText w =
     (if trim inputText = [] then ([], w)
      else
        let w0 = setParcels [] (w\<lparr>appStatus := PARSING_TEXT\<rparr>);
            w1 = w0\<lparr>selectedParcelId := None, measurementsVisibleIds := {}\<rparr>
        in case extractParcels ai useAiParsing inputText w1 of
             (Inl e, w2) \<Rightarrow> ([], onError e w2)
           | (Inr parsedRaw, w2) \<Rightarrow>
              let ips = initialParcels now parsedRaw;
                  w3 = (setParcels ips w2)\<lparr>appStatus := FETCHING_INSEE,
                         progressMessage := js ''Resolving INSEE codes and geometries...''\<rparr>
              in case resolveFrom net enc 0 (ips, w3) of
                   (Inl e, ups, w4) \<Rightarrow> (ups, onError e w4)
                 | (Inr u, ups, w4) \<Rightarrow>
                    (ups, w4\<lparr>appStatus := COMPLETED,
                             progressMessage := js ''Processing complete.''\<rparr>))"


section \<open>Area (calculateGeoJsonArea and formatArea of App.tsx)\<close>

definition earthRadius :: real where
  "earthRadius = 6378137"

text \<open>The summand of the loop body of \<open>getRingArea\<close> at index \<open>i\<close>; both reads are
  in range when \<open>i < length coords\<close>.\<close>

definition ringTerm :: "ring \<Rightarrow> nat \<Rightarrow> real" where
  "ringTerm coords i =
     (case coords ! i of (p1Lng, p1Lat) \<Rightarrow>
      case coords ! ((i + 1) mod length coords) of (p2Lng, p2Lat) \<Rightarrow>
        ((p2Lng - p1Lng) * (pi / 180)) *
        (2 + sin (p1Lat * (pi / 180)) + sin (p2Lat * (pi / 180))))"

function ringLoop :: "ring \<Rightarrow> nat \<Rightarrow> real \<Rightarrow> real" where
  "ringLoop coords i area =
     (if i < length coords then ringLoop coords (Suc i) (area + ringTerm coords i) else area)"
  by pat_completeness auto
termination
  by (relation "measure (\<lambda>(coords, i, area). length coords - i)") auto

declare ringLoop.simps [simp del]

definition getRingArea :: "ring \<Rightarrow> real" where
  "getRingArea coords =
     \<bar>if length coords > 2 then ringLoop coords 0 0 * earthRadius * earthRadius / 2 else 0\<bar>"

text \<open>Reading \<open>.length\<close> or calling \<open>.forEach\<close> on \<open>undefined\<close>.\<close>

definition undefinedError :: exn where
  "undefinedError = Exception (js ''TypeError'') (js ''Cannot read properties of undefined'')"

text \<open>\<open>getRingArea(x[0])\<close>: on an empty array \<open>x[0]\<close> is \<open>undefined\<close> and
  \<open>coords.length\<close> throws.\<close>

definition outerRingArea :: "ring list \<Rightarrow> exn + real" where
  "outerRingArea rings = (case rings of [] \<Rightarrow> Inl undefinedError | r # holes \<Rightarrow> Inr (getRingArea r))"

text \<open>The inner \<open>forEach\<close> over the polygons of a MultiPolygon, adding to \<open>totalArea\<close>.\<close>

fun polysArea :: "ring list list \<Rightarrow> real \<Rightarrow> exn + real" where
  "polysArea [] totalArea = Inr totalArea"
| "polysArea (poly # polys) totalArea =
     (case outerRingArea poly of
        Inl e \<Rightarrow> Inl e
      | Inr a \<Rightarrow> polysArea polys (totalArea + a))"

text \<open>The \<open>forEach\<close> over the features.\<close>

fun featuresArea :: "feature list \<Rightarrow> real \<Rightarrow> exn + real" where
  "featuresArea [] totalArea = Inr totalArea"
| "featuresArea (f # fs) totalArea =
     (case f_geometry f of
        None \<Rightarrow> featuresArea fs totalArea
      | Some (Polygon rings) \<Rightarrow>
         (case outerRingArea rings of
            Inl e \<Rightarrow> Inl e
          | Inr a \<Rightarrow> featuresArea fs (totalArea + a))
      | Some (MultiPolygon polys) \<Rightarrow>
         (case polysArea polys totalArea of
            Inl e \<Rightarrow> Inl e
          | Inr t \<Rightarrow> featuresArea fs t)
      | Some OtherGeometry \<Rightarrow> featuresArea fs totalArea)"

text \<open>\<open>geoJson.type === 'FeatureCollection' ? geoJson.features : [geoJson]\<close>, and
  the \<open>forEach\<close> on it, which throws when \<open>features\<close> is absent.\<close>

definition featureList :: "geojson \<Rightarrow> exn + feature list" where
  "featureList g =
     (if gj_type g = js ''FeatureCollection''
      then (case gj_features g of None \<Rightarrow> Inl undefinedError | Some fs \<Rightarrow> Inr fs)
      else Inr [Feature (gj_geometry g)])"

definition calculateGeoJsonArea :: "geojson option \<Rightarrow> exn + real" where
  "calculateGeoJsonArea geoJson' =
     (case geoJson' of
        None \<Rightarrow> Inr 0
      | Some g \<Rightarrow>
         (case featureList g of
            Inl e \<Rightarrow> Inl e
          | Inr fs \<Rightarrow> featuresArea fs 0))"




section \<open>Track files (createGpxContent and handleExportGPX of App.tsx)\<close>

text \<open>The \<open>name\<close> constant of \<open>createGpxContent\<close>, used for both \<open><name>\<close>
  elements of the document.\<close>

definition gpxName :: "ParsedParcel \<Rightarrow> jsstring" where
  "gpxName parcel = communeName parcel @ [32] @ section' parcel @ [32] @ numero parcel"

text \<open>\<open>dq\<close> is the double quote; \<open>numStr\<close> prints a coordinate in a template
  literal.\<close>

definition dq :: jsstring where
  "dq = [34]"

definition addRing :: "(real \<Rightarrow> jsstring) \<Rightarrow> ring \<Rightarrow> jsstring" where
  "addRing numStr ring =
     js ''<trkseg>''
     @ concat (map (\<lambda>coord. js ''<trkpt lat='' @ dq @ numStr (snd coord) @ dq
                       @ js '' lon='' @ dq @ numStr (fst coord) @ dq
                       @ js ''><ele>0</ele></trkpt>'') ring)
     @ js ''</trkseg>''"

definition featureSegments :: "(real \<Rightarrow> jsstring) \<Rightarrow> feature \<Rightarrow> jsstring" where
  "featureSegments numStr f =
     (case f_geometry f of
        None \<Rightarrow> []
      | Some (Polygon rings) \<Rightarrow> concat (map (addRing numStr) rings)
      | Some (MultiPolygon polys) \<Rightarrow> concat (map (\<lambda>poly. concat (map (addRing numStr) poly)) polys)
      | Some OtherGeometry \<Rightarrow> [])"

definition createGpxContent :: "(real \<Rightarrow> jsstring) \<Rightarrow> ParsedParcel \<Rightarrow> exn + jsstring" where
  "createGpxContent numStr parcel =
     (case geoJson parcel of
        None \<Rightarrow> Inr []
      | Some g \<Rightarrow>
         (case featureList g of
            Inl e \<Rightarrow> Inl e
          | Inr fs \<Rightarrow>
             let name = gpxName parcel;
                 segments = concat (map (featureSegments numStr) fs)
             in Inr (js ''<?xml version='' @ dq @ js ''1.0'' @ dq @ js '' encoding='' @ dq
                     @ js ''UTF-8'' @ dq @ js ''?>'' @ [10]
                   @ js ''<gpx version='' @ dq @ js ''1.1'' @ dq @ js '' creator='' @ dq
                     @ js ''CadastreViz'' @ dq @ js ''>'' @ [10]
                   @ js ''  <metadata>'' @ [10]
                   @ js ''    <name>'' @ name @ js ''</name>'' @ [10]
                   @ js ''  </metadata>'' @ [10]
                   @ js ''  <trk>'' @ [10]
                   @ js ''    <name>'' @ name @ js ''</name>'' @ [10]
                   @ js ''    '' @ segments @ [10]
                   @ js ''  </trk>'' @ [10]
                   @ js ''</gpx>'')))"

text \<open>\<open>.replace(/\s+/g, '_')\<close>: every maximal run of whitespace becomes one
  underscore.\<close>

function replaceWhitespace :: "jsstring \<Rightarrow> jsstring" where
  "replaceWhitespace [] = []"
| "replaceWhitespace (c # cs) =
     (if isSpace c then 95 # replaceWhitespace (dropWhile isSpace cs)
      else c # replaceWhitespace cs)"
  by pat_completeness auto
termination
  by (relation "measure length") (auto simp: length_dropWhile_le less_Suc_eq_le)

text \<open>\<open>.replace(/[^a-z0-9_\-\.]/gi, '')\<close>: the characters the class keeps.\<close>

definition isFileNameChar :: "nat \<Rightarrow> bool" where
  "isFileNameChar c = (isLowerAZ c \<or> isUpperAZ c \<or> isDigit c \<or> c = 95 \<or> c = 45 \<or> c = 46)"

definition stripUnsafe :: "jsstring \<Rightarrow> jsstring" where
  "stripUnsafe s = filter isFileNameChar s"

definition cleanName :: "ParsedParcel \<Rightarrow> jsstring" where
  "cleanName p =
     stripUnsafe (replaceWhitespace (communeName p @ [45] @ section' p @ [45] @ numero p))"

datatype ExportResult = Alert jsstring | Zip "(jsstring \<times> jsstring) list"

text \<open>The \<open>forEach\<close> that fills the archive: one \<open>zip.file(name, content)\<close> call
  per record, in order.\<close>

fun zipFiles :: "(real \<Rightarrow> jsstring) \<Rightarrow> ParsedParcel list \<Rightarrow> exn + (jsstring \<times> jsstring) list" where
  "zipFiles numStr [] = Inr []"
| "zipFiles numStr (p # ps) =
     (case createGpxContent numStr p of
        Inl e \<Rightarrow> Inl e
      | Inr gpxContent \<Rightarrow>
         (case zipFiles numStr ps of
            Inl e \<Rightarrow> Inl e
          | Inr files \<Rightarrow> Inr ((cleanName p @ js ''.gpx'', gpxContent) # files)))"

text \<open>\<open>handleExportGPX\<close> up to the calls that fill the archive; generating and
  downloading the archive is left to the browser.\<close>

definition handleExportGPX :: "(real \<Rightarrow> jsstring) \<Rightarrow> ParsedParcel list \<Rightarrow> exn + ExportResult" where
  "handleExportGPX numStr ps =
     (let successParcels = filter (\<lambda>p. status p = Success \<and> geoJson p \<noteq> None) ps
      in if length successParcels = 0
         then Inr (Alert (js ''No valid parcels with geometry found to export.''))
         else (case zipFiles numStr successParcels of
                 Inl e \<Rightarrow> Inl e
               | Inr files \<Rightarrow> Inr (Zip files)))"


section \<open>Notions used to state the properties\<close>

text \<open>The state of the loop after its first \<open>k\<close> iterations (no iteration
  leaves the loop with an exception: \<open>resolveRecord_ok\<close> below).\<close>

primrec runUpTo ::
  "network \<Rightarrow> (jsstring \<Rightarrow> exn + jsstring) \<Rightarrow> nat \<Rightarrow> ParsedParcel list \<times> World
     \<Rightarrow> ParsedParcel list \<times> World" where
  "runUpTo net enc 0 st = st"
| "runUpTo net enc (Suc k) st = snd (resolveRecord net enc k (runUpTo net enc k st))"

text \<open>The local array when the loop over the initial records of the queries
  \<open>qs\<close> has ended.\<close>

definition finalRecords ::
  "network \<Rightarrow> (jsstring \<Rightarrow> exn + jsstring) \<Rightarrow> (nat \<Rightarrow> nat) \<Rightarrow> ParcelQuery list \<Rightarrow> World
     \<Rightarrow> ParsedParcel list" where
  "finalRecords net enc now qs w = fst (snd (resolveFrom net enc 0 (initialParcels now qs, w)))"

text \<open>The URL of a geometry request: the numero goes out padded.\<close>

definition geometryUrl :: "jsstring \<Rightarrow> jsstring \<Rightarrow> jsstring \<Rightarrow> jsstring" where
  "geometryUrl insee sec num = parcelleUrl insee sec (padStart 4 48 num)"

text \<open>A terminal status.\<close>

definition terminal :: "Status \<Rightarrow> bool" where
  "terminal s = (s = Success \<or> s = Error)"

text \<open>What the data model asks of a record: \<open>geoJson\<close> is present exactly on
  \<open>success\<close>, and then its feature array has a member; \<open>errorMessage\<close> is
  present exactly on \<open>error\<close>.\<close>

definition recordInvariant :: "ParsedParcel \<Rightarrow> bool" where
  "recordInvariant r =
     (((geoJson r \<noteq> None) = (status r = Success))
      \<and> ((errorMessage r \<noteq> None) = (status r = Error))
      \<and> (case geoJson r of
           None \<Rightarrow> True
         | Some g \<Rightarrow> (case gj_features g of Some (f # fs) \<Rightarrow> True | _ \<Rightarrow> False)))"

text \<open>The answers to a commune request on which the lookup finds nothing: a
  transport error, a response that is not OK, and an OK response whose body does
  not parse, is \<open>null\<close> or is an empty result set.\<close>

definition communeLookupFails :: "fetch_result \<Rightarrow> bool" where
  "communeLookupFails r =
     (case r of
        NetworkError \<Rightarrow> True
      | Response ok b \<Rightarrow> \<not> ok \<or> b = Unparsable \<or> b = Parsed JNull \<or> b = Parsed (JCommunes []))"

text \<open>A response that is not OK; and an answer that gives a lookup nothing to
  return: a transport error, a response that is not OK, a body that does not
  parse.\<close>

definition notOk :: "fetch_result \<Rightarrow> bool" where
  "notOk r = (case r of NetworkError \<Rightarrow> False | Response ok b \<Rightarrow> \<not> ok)"

definition failsOrUnparsable :: "fetch_result \<Rightarrow> bool" where
  "failsOrUnparsable r =
     (case r of NetworkError \<Rightarrow> True | Response ok b \<Rightarrow> \<not> ok \<or> b = Unparsable)"


text \<open>The area formula in the words of the specification: over the consecutive
  vertex pairs of a ring, the last wrapping to the first, the sum of the longitude
  difference in radians times \<open>2 + sin lat1 + sin lat2\<close> (latitudes in radians);
  its absolute value, times \<open>R\<^sup>2 / 2\<close> with \<open>R = 6378137\<close>.\<close>

definition radians :: "real \<Rightarrow> real" where
  "radians d = d * pi / 180"

definition ringSum :: "ring \<Rightarrow> real" where
  "ringSum coords =
     (\<Sum>i<length coords.
        radians (fst (coords ! ((i + 1) mod length coords)) - fst (coords ! i))
        * (2 + sin (radians (snd (coords ! i)))
             + sin (radians (snd (coords ! ((i + 1) mod length coords))))))"

definition ringArea_spec :: "ring \<Rightarrow> real" where
  "ringArea_spec coords = \<bar>ringSum coords\<bar> * (6378137\<^sup>2 / 2)"

text \<open>Only the outer ring of a polygon counts; a collection sums its members.\<close>

fun polygonArea_spec :: "ring list \<Rightarrow> real" where
  "polygonArea_spec (outer # holes) = ringArea_spec outer"
| "polygonArea_spec [] = 0"

definition featureArea_spec :: "feature \<Rightarrow> real" where
  "featureArea_spec f =
     (case f_geometry f of
        Some (Polygon rings) \<Rightarrow> polygonArea_spec rings
      | Some (MultiPolygon polys) \<Rightarrow> sum_list (map polygonArea_spec polys)
      | _ \<Rightarrow> 0)"

text \<open>Every polygon of the feature has an outer ring.\<close>

definition hasOuterRings :: "feature \<Rightarrow> bool" where
  "hasOuterRings f =
     (case f_geometry f of
        Some (Polygon rings) \<Rightarrow> rings \<noteq> []
      | Some (MultiPolygon polys) \<Rightarrow> list_all (\<lambda>poly. poly \<noteq> []) polys
      | _ \<Rightarrow> True)"

section \<open>Example environments and inputs\<close>

text \<open>The state of a freshly mounted \<open>App\<close>.\<close>

definition world0 :: World where
  "world0 = \<lparr>parcels = [], appStatus = IDLE, progressMessage = [], selectedParcelId = None,
     measurementsVisibleIds = {}, published = [], requests = []\<rparr>"

text \<open>\<open>encodeURIComponent\<close> on unreserved ASCII characters changes nothing.\<close>

definition encPlain :: "jsstring \<Rightarrow> exn + jsstring" where
  "encPlain s = Inr s"

definition aiDown :: "jsstring \<Rightarrow> exn + ParcelQuery list" where
  "aiDown t = Inl (Exception (js ''Error'') (js ''API key not valid''))"

definition clock0 :: "nat \<Rightarrow> nat" where
  "clock0 idx = 0"

definition triangle :: ring where
  "triangle = [(0, 0), (1, 0), (0, 1), (0, 0)]"

definition exampleCollection :: geojson where
  "exampleCollection =
     GeoJson (js ''FeatureCollection'') (Some [Feature (Some (Polygon [triangle]))]) None"

text \<open>A polygon whose coordinate array is empty.\<close>

definition emptyPolygonCollection :: geojson where
  "emptyPolygonCollection =
     GeoJson (js ''FeatureCollection'') (Some [Feature (Some (Polygon []))]) None"

text \<open>Networks: one that is down; one that finds no commune; and the one of
  Example 3, which finds the commune, refuses the first geometry request and
  answers the second with a feature.\<close>

definition netDown :: network where
  "netDown n url = NetworkError"

definition netNoCommune :: network where
  "netNoCommune n url = Response True (Parsed (JCommunes []))"

definition netRetry :: network where
  "netRetry n url =
     (if n = 0 then Response True (Parsed (JCommunes
          [\<lparr>nom = js ''Schorbach'', code = js ''57639'', codesPostaux = []\<rparr>]))
      else if n = 1 then Response False Unparsable
      else if n = 2 then Response True (Parsed (JGeo exampleCollection))
      else NetworkError)"

definition exampleQuery :: ParcelQuery where
  "exampleQuery = \<lparr>communeName = js ''SCHORBACH'', section' = js ''C'', numero = js ''584''\<rparr>"

definition exampleParcel :: ParsedParcel where
  "exampleParcel = initialParcel clock0 0 exampleQuery"

definition exampleSuccess :: ParsedParcel where
  "exampleSuccess = exampleParcel\<lparr>inseeCode := Some (js ''57639''),
     geoJson := Some exampleCollection, status := Success\<rparr>"



definition numStrIntegral :: "real \<Rightarrow> jsstring" where
  "numStrIntegral x = (if x < 0 then 45 # decimal (nat \<lfloor>- x\<rfloor>) else decimal (nat \<lfloor>x\<rfloor>))"

text \<open>The division of doubles on the operands of the examples. The quotient of
  25000 by 10000 is the double 2.5. The quotient of 20000.5 by 10000 is not a
  double; the nearest one is \<open>1125928054340295 / 2\<^sup>4\<^sup>9\<close>, a little below
  2.00005.\<close>

definition divExample :: "real \<Rightarrow> real \<Rightarrow> real" where
  "divExample x y =
     (if x = 40001 / 2 \<and> y = 10000 then 1125928054340295 / 562949953421312 else x / y)"

section \<open>The deterministic extractor on the first example line\<close>

lemmas extractor_defs = js_match_def pattern1_def pattern2_def seqs_def alts_def word_def
  alnum12_def sectionMarker_def numberMarker_def js_def isSpace_def isLineTerminator_def
  isDigit_def isUpperAZ_def isLowerAZ_def canonicalize_def parseParcelTextRegex_def
  parseLine_def trim_def toQuery_def grp_def toUpperCase_def

text \<open>Pattern 1 reads the line with the number marker \<open>No\<close> and with no number
  marker, and the minimalist pattern 2 reads \<open>LENGELSHEIM B 45\<close>.\<close>

lemma extractor_marker_No:
  "parseParcelTextRegex (js ''SCHORBACH S C No 0584'') =
     [\<lparr>communeName = js ''SCHORBACH'', section' = js ''C'', numero = js ''0584''\<rparr>]"
  by (simp add: extractor_defs)

lemma extractor_no_marker:
  "parseParcelTextRegex (js ''SCHORBACH S C 0584'') =
     [\<lparr>communeName = js ''SCHORBACH'', section' = js ''C'', numero = js ''0584''\<rparr>]"
  by (simp add: extractor_defs)

lemma extractor_minimalist:
  "parseParcelTextRegex (js ''LENGELSHEIM B 45'') =
     [\<lparr>communeName = js ''LENGELSHEIM'', section' = js ''B'', numero = js ''45''\<rparr>]"
  by (simp add: extractor_defs)

text \<open>With the code unit U+C9F8 after \<open>N\<close>, which is what the pattern of the
  source file spells, the line is read as the comment above the pattern says.\<close>

lemma extractor_marker_as_spelled:
  "parseParcelTextRegex (js ''SCHORBACH S C N'' @ [51704] @ js '' 0584'') =
     [\<lparr>communeName = js ''SCHORBACH'', section' = js ''C'', numero = js ''0584''\<rparr>]"
  by (simp add: extractor_defs)

text \<open>
  C2. The claim: for the input line \<open>SCHORBACH S C N\<degree> 0584\<close> (with the degree sign
  U+00B0, code unit 176) the deterministic extractor yields exactly one triple
  with commune SCHORBACH, section C and numero 0584. The extractor of the source
  yields no triple at all on this line: the first number marker of pattern 1 is
  spelled with U+C9F8 instead of the degree sign, so after \<open>N\<close> the degree sign
  matches nothing, and pattern 2 finds no section before the digits.
\<close>

theorem C2_degree_sign_line_yields_no_triple:
  "parseParcelTextRegex (js ''SCHORBACH S C N'' @ [176] @ js '' 0584'') = []"
  by (simp add: extractor_defs)


section \<open>The lookups and the loop: basic facts\<close>

text \<open>What each lookup returns and requests, by the answer of the network.\<close>

lemma getInseeCode_cases:
  "getInseeCode net enc name w =
     (case enc name of
        Inl e \<Rightarrow> (Inr None, w)
      | Inr q \<Rightarrow>
         (case net (length (requests w)) (communeUrl q) of
            Response True (Parsed (JCommunes (d # ds))) \<Rightarrow> Inr (Some (code d))
          | _ \<Rightarrow> Inr None,
          w\<lparr>requests := requests w @ [communeUrl q]\<rparr>))"
  by (simp add: getInseeCode_def getInseeCode_try_def fetch_def
      split: sum.splits fetch_result.splits body.splits json.splits list.splits bool.splits)

lemma getParcelGeometry_cases:
  "getParcelGeometry net insee sec num w =
     (let n = length (requests w);
          url1 = parcelleUrl insee sec (padStart 4 48 num);
          url2 = parcelleUrl insee (48 # sec) (padStart 4 48 num)
      in case net n url1 of
           Response True (Parsed j) \<Rightarrow> (Inr j, w\<lparr>requests := requests w @ [url1]\<rparr>)
         | Response False b \<Rightarrow>
             if length sec = 1 then
               (case net (Suc n) url2 of
                  Response True (Parsed j) \<Rightarrow> Inr j
                | _ \<Rightarrow> Inr JNull,
                w\<lparr>requests := requests w @ [url1, url2]\<rparr>)
             else (Inr JNull, w\<lparr>requests := requests w @ [url1]\<rparr>)
         | _ \<Rightarrow> (Inr JNull, w\<lparr>requests := requests w @ [url1]\<rparr>))"
  by (simp add: getParcelGeometry_def getParcelGeometry_try_def fetch_def Let_def
      split: sum.splits fetch_result.splits body.splits json.splits list.splits bool.splits)


lemma getInseeCode_total: "\<exists>r. fst (getInseeCode net enc name w) = Inr r"
  by (simp add: getInseeCode_cases
      split: sum.splits fetch_result.splits body.splits json.splits list.splits bool.splits)

lemma getParcelGeometry_total: "\<exists>j. fst (getParcelGeometry net insee sec num w) = Inr j"
  by (simp add: getParcelGeometry_cases Let_def
      split: fetch_result.splits body.splits bool.splits)

lemma getInseeCode_published:
  "published (snd (getInseeCode net enc name w)) = published w"
  by (simp add: getInseeCode_cases split: sum.splits)

lemma getParcelGeometry_published:
  "published (snd (getParcelGeometry net insee sec num w)) = published w"
  by (simp add: getParcelGeometry_cases Let_def
      split: fetch_result.splits body.splits bool.splits)

lemma resolveRecord_ok: "fst (resolveRecord net enc i st) = Inr ()"
proof -
  obtain ups w where st: "st = (ups, w)" by (cases st)
  show ?thesis
    using getInseeCode_total [of net enc "communeName (ups ! i)"]
      getParcelGeometry_total [of net]
    unfolding st resolveRecord_def Let_def
    by (auto split: prod.splits sum.splits option.splits) (metis fst_conv sum.distinct(1))+
qed

lemma resolveRecord_length:
  "length (fst (snd (resolveRecord net enc i (ups, w)))) = length ups"
  by (auto simp: resolveRecord_def Let_def split: prod.splits sum.splits option.splits)

lemma resolveRecord_nth_other:
  "j \<noteq> i \<Longrightarrow> fst (snd (resolveRecord net enc i (ups, w))) ! j = ups ! j"
  by (auto simp: resolveRecord_def Let_def split: prod.splits sum.splits option.splits)

lemma resolveFrom_step:
  "i < length ups \<Longrightarrow>
     resolveFrom net enc i (ups, w) = resolveFrom net enc (Suc i) (snd (resolveRecord net enc i (ups, w)))"
  using resolveRecord_ok [of net enc i "(ups, w)"]
  by (subst resolveFrom.simps) (auto split: prod.splits sum.splits)

lemma resolveFrom_done:
  "\<not> i < length ups \<Longrightarrow> resolveFrom net enc i (ups, w) = (Inr (), ups, w)"
  by (subst resolveFrom.simps) simp

lemma resolveFrom_ok: "fst (resolveFrom net enc i st) = Inr ()"
proof (induction net enc i st rule: resolveFrom.induct)
  case (1 net enc i st)
  show ?case
  proof (cases "i < length (fst st)")
    case True
    obtain r st' where rr: "resolveRecord net enc i st = (r, st')"
      by (cases "resolveRecord net enc i st")
    with resolveRecord_ok [of net enc i st] have r: "r = Inr ()" by simp
    from 1 [OF True] rr r have "fst (resolveFrom net enc (Suc i) st') = Inr ()" by simp
    with True rr r show ?thesis by (subst resolveFrom.simps) simp
  next
    case False
    then show ?thesis by (subst resolveFrom.simps) simp
  qed
qed

lemma resolveFrom_length:
  "length (fst (snd (resolveFrom net enc i (ups, w)))) = length ups"
proof (induction "length ups - i" arbitrary: i ups w)
  case 0
  then show ?case by (simp add: resolveFrom_done)
next
  case (Suc k)
  then have lt: "i < length ups" by simp
  obtain ups' w' where s: "snd (resolveRecord net enc i (ups, w)) = (ups', w')"
    by (cases "snd (resolveRecord net enc i (ups, w))")
  then have len: "length ups' = length ups"
    using resolveRecord_length [of net enc i ups w] by simp
  with Suc(2) have "k = length ups' - Suc i" by simp
  from Suc(1) [OF this, of w'] len s lt show ?case
    by (simp add: resolveFrom_step)
qed

lemma resolveFrom_prefix:
  "j < i \<Longrightarrow> fst (snd (resolveFrom net enc i (ups, w))) ! j = ups ! j"
proof (induction "length ups - i" arbitrary: i ups w)
  case 0
  then show ?case by (simp add: resolveFrom_done)
next
  case (Suc k)
  then have lt: "i < length ups" by simp
  obtain ups' w' where s: "snd (resolveRecord net enc i (ups, w)) = (ups', w')"
    by (cases "snd (resolveRecord net enc i (ups, w))")
  then have len: "length ups' = length ups"
    using resolveRecord_length [of net enc i ups w] by simp
  from s Suc(3) have nth: "ups' ! j = ups ! j"
    using resolveRecord_nth_other [of j i net enc ups w] by simp
  from len Suc(2) have "k = length ups' - Suc i" by simp
  from Suc(1) [OF this, of w'] Suc(3) nth s lt show ?case
    by (simp add: resolveFrom_step)
qed

text \<open>The record at index \<open>i\<close> after the whole loop is the record after its own iteration.\<close>

lemma resolveFrom_nth:
  assumes "i < length ups"
  shows "fst (snd (resolveFrom net enc i (ups, w))) ! i
       = fst (snd (resolveRecord net enc i (ups, w))) ! i"
proof -
  obtain ups' w' where s: "snd (resolveRecord net enc i (ups, w)) = (ups', w')"
    by (cases "snd (resolveRecord net enc i (ups, w))")
  from resolveFrom_prefix [of i "Suc i" net enc ups' w'] s assms show ?thesis
    by (simp add: resolveFrom_step)
qed



text \<open>The state after the first \<open>k\<close> iterations; the final record at an index;
  how \<open>handleProcess\<close> reaches the loop.\<close>

lemma runUpTo_length: "length (fst (runUpTo net enc k (ups, w))) = length ups"
proof (induction k)
  case 0
  show ?case by simp
next
  case (Suc k)
  obtain ups' w' where s: "runUpTo net enc k (ups, w) = (ups', w')"
    by (cases "runUpTo net enc k (ups, w)")
  with Suc resolveRecord_length [of net enc k ups' w'] show ?case by simp
qed

lemma runUpTo_nth_later:
  "k \<le> j \<Longrightarrow> fst (runUpTo net enc k (ups, w)) ! j = ups ! j"
proof (induction k)
  case 0
  show ?case by simp
next
  case (Suc k)
  obtain ups' w' where s: "runUpTo net enc k (ups, w) = (ups', w')"
    by (cases "runUpTo net enc k (ups, w)")
  with Suc resolveRecord_nth_other [of j k net enc ups' w'] show ?case by simp
qed

lemma resolveFrom_runUpTo:
  "k \<le> length ups \<Longrightarrow>
     resolveFrom net enc 0 (ups, w) = resolveFrom net enc k (runUpTo net enc k (ups, w))"
proof (induction k)
  case 0
  show ?case by simp
next
  case (Suc k)
  obtain ups' w' where s: "runUpTo net enc k (ups, w) = (ups', w')"
    by (cases "runUpTo net enc k (ups, w)")
  with runUpTo_length [of net enc k ups w] have "length ups' = length ups" by simp
  with Suc s resolveFrom_step [of k ups' net enc w'] show ?case by simp
qed

lemma final_nth:
  assumes "i < length ups"
  shows "fst (snd (resolveFrom net enc 0 (ups, w))) ! i
       = fst (snd (resolveRecord net enc i (runUpTo net enc i (ups, w)))) ! i"
proof -
  obtain ups' w' where s: "runUpTo net enc i (ups, w) = (ups', w')"
    by (cases "runUpTo net enc i (ups, w)")
  with runUpTo_length [of net enc i ups w] have len: "length ups' = length ups" by simp
  from assms have "resolveFrom net enc 0 (ups, w) = resolveFrom net enc i (ups', w')"
    using resolveFrom_runUpTo [of i ups net enc w] s by simp
  with resolveFrom_nth [of i ups' net enc w'] assms len s show ?thesis by simp
qed

lemma getInseeCode_not_Inl: "getInseeCode net enc name w \<noteq> (Inl e, w')"
  using getInseeCode_total [of net enc name w] by auto

lemma getParcelGeometry_not_Inl: "getParcelGeometry net insee sec num w \<noteq> (Inl e, w')"
  using getParcelGeometry_total [of net insee sec num w] by auto

lemma resolveRecord_terminal:
  "i < length ups \<Longrightarrow> terminal (status (fst (snd (resolveRecord net enc i (ups, w))) ! i))"
  by (auto simp: resolveRecord_def Let_def terminal_def getInseeCode_not_Inl
      getParcelGeometry_not_Inl split: prod.splits sum.splits option.splits)

lemma resolveFrom_terminal:
  "i \<le> j \<Longrightarrow> j < length ups \<Longrightarrow>
     terminal (status (fst (snd (resolveFrom net enc i (ups, w))) ! j))"
proof (induction "j - i" arbitrary: i ups w)
  case 0
  then have "i = j" by simp
  with 0 resolveFrom_nth [of j ups net enc w] resolveRecord_terminal [of j ups net enc w]
  show ?case by simp
next
  case (Suc k)
  then have lt: "i < length ups" and le: "Suc i \<le> j" by simp_all
  obtain ups' w' where s: "snd (resolveRecord net enc i (ups, w)) = (ups', w')"
    by (cases "snd (resolveRecord net enc i (ups, w))")
  then have len: "length ups' = length ups"
    using resolveRecord_length [of net enc i ups w] by simp
  from Suc(2) have "k = j - Suc i" by simp
  from Suc(1) [OF this le, of ups' w'] Suc(4) len s lt show ?case
    by (simp add: resolveFrom_step)
qed

lemma initialParcels_length: "length (initialParcels now qs) = length qs"
  by (simp add: initialParcels_def)

lemma initialParcels_nth:
  "i < length qs \<Longrightarrow> initialParcels now qs ! i = initialParcel now i (qs ! i)"
  by (simp add: initialParcels_def nth_enumerate_eq)

lemma extractParcels_fst:
  "fst (extractParcels ai useAiParsing inputText w) = fst (extractParcels ai useAiParsing inputText w')"
  by (simp add: extractParcels_def Let_def)

lemma handleProcess_loop:
  assumes "trim inputText \<noteq> []"
    and "fst (extractParcels ai useAiParsing inputText w) = Inr qs"
  shows "\<exists>w3. published w3 = published w @ [[], initialParcels now qs]
      \<and> requests w3 = requests w
      \<and> fst (handleProcess net enc ai now useAiParsing inputText w)
          = fst (snd (resolveFrom net enc 0 (initialParcels now qs, w3)))
      \<and> snd (handleProcess net enc ai now useAiParsing inputText w)
          = (snd (snd (resolveFrom net enc 0 (initialParcels now qs, w3))))
              \<lparr>appStatus := COMPLETED, progressMessage := js ''Processing complete.''\<rparr>"
proof -
  define w1 where "w1 = (setParcels [] (w\<lparr>appStatus := PARSING_TEXT\<rparr>))
     \<lparr>selectedParcelId := None, measurementsVisibleIds := {}\<rparr>"
  obtain w2 where e: "extractParcels ai useAiParsing inputText w1 = (Inr qs, w2)"
    using assms(2) extractParcels_fst [of ai useAiParsing inputText w1 w]
    by (cases "extractParcels ai useAiParsing inputText w1") simp
  then have w2: "published w2 = published w1 \<and> requests w2 = requests w1"
    by (auto simp: extractParcels_def Let_def split: if_splits)
  define w3 where "w3 = (setParcels (initialParcels now qs) w2)\<lparr>appStatus := FETCHING_INSEE,
      progressMessage := js ''Resolving INSEE codes and geometries...''\<rparr>"
  have ok: "fst (resolveFrom net enc 0 (initialParcels now qs, w3)) = Inr ()"
    by (rule resolveFrom_ok)
  have "published w3 = published w @ [[], initialParcels now qs] \<and> requests w3 = requests w"
    using w2 by (simp add: w3_def w1_def setParcels_def)
  moreover have "fst (handleProcess net enc ai now useAiParsing inputText w)
          = fst (snd (resolveFrom net enc 0 (initialParcels now qs, w3)))
      \<and> snd (handleProcess net enc ai now useAiParsing inputText w)
          = (snd (snd (resolveFrom net enc 0 (initialParcels now qs, w3))))
              \<lparr>appStatus := COMPLETED, progressMessage := js ''Processing complete.''\<rparr>"
    using assms(1) e ok
    by (auto simp: handleProcess_def Let_def w1_def [symmetric] w3_def [symmetric]
        split: prod.splits sum.splits)
  ultimately show ?thesis by blast
qed


section \<open>Publication of progress\<close>

text \<open>A run of the deterministic extractor and the loop on one line, on a network
  that finds no commune.\<close>

lemma example_line_parsed:
  "parseParcelTextRegex (js ''SCHORBACH S C No 584'') = [exampleQuery]"
  by (simp add: extractor_defs exampleQuery_def)

lemma example_line_nonblank: "trim (js ''SCHORBACH S C No 584'') \<noteq> []"
  by (simp add: trim_def js_def isSpace_def isLineTerminator_def)

lemma example_initial: "initialParcels clock0 [exampleQuery] = [exampleParcel]"
  by (simp add: initialParcels_def exampleParcel_def)

lemma loop_no_commune:
  "resolveFrom netNoCommune encPlain 0 ([exampleParcel], w) =
     (Inr (), [exampleParcel\<lparr>status := Error, errorMessage := Some (js ''Commune not found'')\<rparr>],
      w\<lparr>parcels := [exampleParcel\<lparr>status := Loading\<rparr>],
        published := published w @ [[exampleParcel\<lparr>status := Loading\<rparr>]],
        requests := requests w @ [communeUrl (js ''SCHORBACH'')]\<rparr>)"
  apply (subst resolveFrom.simps)
  apply (simp add: resolveRecord_def getInseeCode_cases netNoCommune_def encPlain_def setParcels_def Let_def)
  apply (subst resolveFrom.simps)
  apply (simp add: exampleParcel_def initialParcel_def exampleQuery_def)
  done


text \<open>
  C1. The claim: after every record reaches a terminal status the full list is
  published before the next record begins, also for a record that fails at the
  commune lookup and for the last record of the run. In the source the commune
  branch ends with \<open>continue\<close>, before the \<open>setParcels\<close> call that closes the
  iteration. On a run of one record whose commune is not found, the record ends
  with status \<open>error\<close> in the local array and the run completes, but the lists
  published are the empty list, the pending list and the loading list: the
  terminal state of the record is never published.
\<close>

theorem C1_commune_failure_never_published:
  "handleProcess netNoCommune encPlain aiDown clock0 False (js ''SCHORBACH S C No 584'') world0 =
    ([exampleParcel\<lparr>status := Error, errorMessage := Some (js ''Commune not found'')\<rparr>],
     \<lparr>parcels = [exampleParcel\<lparr>status := Loading\<rparr>], appStatus = COMPLETED,
       progressMessage = js ''Processing complete.'', selectedParcelId = None,
       measurementsVisibleIds = {},
       published = [[], [exampleParcel], [exampleParcel\<lparr>status := Loading\<rparr>]],
       requests = [communeUrl (js ''SCHORBACH'')]\<rparr>)"
  by (simp add: handleProcess_def example_line_nonblank extractParcels_def example_line_parsed
      example_initial loop_no_commune setParcels_def world0_def Let_def)


section \<open>The lookups never reject\<close>

text \<open>
  C9. Neither lookup ever throws or rejects: each returns a value on every network
  and every input. A name that cannot be encoded, a transport error, a response
  that is not OK and a body that does not parse all give \<open>null\<close> (for the geometry
  lookup, when the retry, if one is made, fails in one of these ways too). So the
  loop never leaves with an exception, and a run whose extraction succeeded ends
  with status \<open>COMPLETED\<close> and every record in a terminal status.
\<close>

theorem C9_lookups_never_reject:
  "(\<exists>r. fst (getInseeCode net enc name w) = Inr r)
   \<and> (\<exists>j. fst (getParcelGeometry net insee sec num w) = Inr j)
   \<and> (\<forall>e. enc name = Inl e \<longrightarrow> getInseeCode net enc name w = (Inr None, w))
   \<and> (\<forall>q. enc name = Inr q
          \<longrightarrow> failsOrUnparsable (net (length (requests w)) (communeUrl q))
          \<longrightarrow> fst (getInseeCode net enc name w) = Inr None)
   \<and> (failsOrUnparsable (net (length (requests w)) (parcelleUrl insee sec (padStart 4 48 num)))
        \<longrightarrow> (notOk (net (length (requests w)) (parcelleUrl insee sec (padStart 4 48 num)))
               \<and> length sec = 1
             \<longrightarrow> failsOrUnparsable
                   (net (Suc (length (requests w))) (parcelleUrl insee (48 # sec) (padStart 4 48 num))))
        \<longrightarrow> fst (getParcelGeometry net insee sec num w) = Inr JNull)
   \<and> fst (resolveFrom net enc i st) = Inr ()
   \<and> (trim inputText \<noteq> [] \<longrightarrow> fst (extractParcels ai useAiParsing inputText w) = Inr qs
        \<longrightarrow> appStatus (snd (handleProcess net enc ai now useAiParsing inputText w)) = COMPLETED
          \<and> length (fst (handleProcess net enc ai now useAiParsing inputText w)) = length qs
          \<and> (\<forall>j < length qs.
                terminal (status (fst (handleProcess net enc ai now useAiParsing inputText w) ! j))))"
proof (intro conjI)
  show "\<exists>r. fst (getInseeCode net enc name w) = Inr r"
    by (rule getInseeCode_total)
  show "\<exists>j. fst (getParcelGeometry net insee sec num w) = Inr j"
    by (rule getParcelGeometry_total)
  show "\<forall>e. enc name = Inl e \<longrightarrow> getInseeCode net enc name w = (Inr None, w)"
    by (simp add: getInseeCode_cases)
  show "\<forall>q. enc name = Inr q
          \<longrightarrow> failsOrUnparsable (net (length (requests w)) (communeUrl q))
          \<longrightarrow> fst (getInseeCode net enc name w) = Inr None"
    by (auto simp: getInseeCode_cases failsOrUnparsable_def
        split: fetch_result.splits body.splits bool.splits)
  show "failsOrUnparsable (net (length (requests w)) (parcelleUrl insee sec (padStart 4 48 num)))
        \<longrightarrow> (notOk (net (length (requests w)) (parcelleUrl insee sec (padStart 4 48 num)))
               \<and> length sec = 1
             \<longrightarrow> failsOrUnparsable
                   (net (Suc (length (requests w))) (parcelleUrl insee (48 # sec) (padStart 4 48 num))))
        \<longrightarrow> fst (getParcelGeometry net insee sec num w) = Inr JNull"
    by (auto simp: getParcelGeometry_cases failsOrUnparsable_def notOk_def Let_def
        split: fetch_result.splits body.splits bool.splits)
  show "fst (resolveFrom net enc i st) = Inr ()"
    by (rule resolveFrom_ok)
  show "trim inputText \<noteq> [] \<longrightarrow> fst (extractParcels ai useAiParsing inputText w) = Inr qs
        \<longrightarrow> appStatus (snd (handleProcess net enc ai now useAiParsing inputText w)) = COMPLETED
          \<and> length (fst (handleProcess net enc ai now useAiParsing inputText w)) = length qs
          \<and> (\<forall>j < length qs.
                terminal (status (fst (handleProcess net enc ai now useAiParsing inputText w) ! j)))"
  proof (intro impI)
    assume a: "trim inputText \<noteq> []" "fst (extractParcels ai useAiParsing inputText w) = Inr qs"
    from handleProcess_loop [OF a, of now net enc] obtain w3 where
      f: "fst (handleProcess net enc ai now useAiParsing inputText w)
          = fst (snd (resolveFrom net enc 0 (initialParcels now qs, w3)))"
      and s: "snd (handleProcess net enc ai now useAiParsing inputText w)
          = (snd (snd (resolveFrom net enc 0 (initialParcels now qs, w3))))
              \<lparr>appStatus := COMPLETED, progressMessage := js ''Processing complete.''\<rparr>"
      by blast
    show "appStatus (snd (handleProcess net enc ai now useAiParsing inputText w)) = COMPLETED
          \<and> length (fst (handleProcess net enc ai now useAiParsing inputText w)) = length qs
          \<and> (\<forall>j < length qs.
                terminal (status (fst (handleProcess net enc ai now useAiParsing inputText w) ! j)))"
      using resolveFrom_terminal [of 0 _ "initialParcels now qs" net enc w3]
      by (simp add: f s resolveFrom_length initialParcels_length)
  qed
qed

lemma example_extract:
  "fst (extractParcels aiDown False (js ''SCHORBACH S C No 584'') world0) = Inr [exampleQuery]"
  by (simp add: extractParcels_def example_line_parsed Let_def)

theorem C9_lookups_never_reject_witness:
  "getInseeCode netDown (\<lambda>s. Inl fetchFailed) (js ''SCHORBACH'') world0 = (Inr None, world0)
   \<and> fst (getInseeCode netDown encPlain (js ''SCHORBACH'') world0) = Inr None
   \<and> fst (getParcelGeometry netDown (js ''57639'') (js ''C'') (js ''584'') world0) = Inr JNull
   \<and> appStatus (snd (handleProcess netDown encPlain aiDown clock0 False
         (js ''SCHORBACH S C No 584'') world0)) = COMPLETED
   \<and> length (fst (handleProcess netDown encPlain aiDown clock0 False
         (js ''SCHORBACH S C No 584'') world0)) = 1"
proof -
  have f: "failsOrUnparsable (netDown n url)" for n url
    by (simp add: failsOrUnparsable_def netDown_def)
  have n: "\<not> notOk (netDown n url)" for n url
    by (simp add: notOk_def netDown_def)
  note t1 = C9_lookups_never_reject [of netDown "\<lambda>s. Inl fetchFailed" "js ''SCHORBACH''" world0
      "js ''57639''" "js ''C''" "js ''584''" 0 "([], world0)" "js ''SCHORBACH S C No 584''"
      aiDown False "[exampleQuery]" clock0]
  note t2 = C9_lookups_never_reject [of netDown encPlain "js ''SCHORBACH''" world0
      "js ''57639''" "js ''C''" "js ''584''" 0 "([], world0)" "js ''SCHORBACH S C No 584''"
      aiDown False "[exampleQuery]" clock0]
  from t1 have a: "getInseeCode netDown (\<lambda>s. Inl fetchFailed) (js ''SCHORBACH'') world0 = (Inr None, world0)"
    by simp
  from t2 f have b: "fst (getInseeCode netDown encPlain (js ''SCHORBACH'') world0) = Inr None"
    by (simp add: encPlain_def)
  from t2 f n have c: "fst (getParcelGeometry netDown (js ''57639'') (js ''C'') (js ''584'') world0) = Inr JNull"
    by simp
  from t2 example_line_nonblank example_extract
  have d: "appStatus (snd (handleProcess netDown encPlain aiDown clock0 False
         (js ''SCHORBACH S C No 584'') world0)) = COMPLETED
   \<and> length (fst (handleProcess netDown encPlain aiDown clock0 False
         (js ''SCHORBACH S C No 584'') world0)) = 1"
    by simp
  from a b c d show ?thesis by simp
qed



section \<open>Records whose commune is not found\<close>

lemma runUpTo_state_nth:
  assumes "i < length qs" and "runUpTo net enc i (initialParcels now qs, w) = (ups_i, w_i)"
  shows "length ups_i = length qs" and "ups_i ! i = initialParcel now i (qs ! i)"
proof -
  from assms(2) runUpTo_length [of net enc i "initialParcels now qs" w]
  show "length ups_i = length qs" by (simp add: initialParcels_length)
  from assms runUpTo_nth_later [of i i net enc "initialParcels now qs" w]
  show "ups_i ! i = initialParcel now i (qs ! i)" by (simp add: initialParcels_nth)
qed

lemma finalRecords_nth:
  assumes "i < length qs" and "runUpTo net enc i (initialParcels now qs, w) = (ups_i, w_i)"
  shows "finalRecords net enc now qs w ! i = fst (snd (resolveRecord net enc i (ups_i, w_i))) ! i"
  using assms final_nth [of i "initialParcels now qs" net enc w]
  by (simp add: finalRecords_def initialParcels_length)

lemma initialParcel_fields [simp]:
  "communeName (initialParcel now i p) = communeName p"
  "section' (initialParcel now i p) = section' p"
  "numero (initialParcel now i p) = numero p"
  "inseeCode (initialParcel now i p) = None"
  "geoJson (initialParcel now i p) = None"
  "errorMessage (initialParcel now i p) = None"
  "status (initialParcel now i p) = Pending"
  by (simp_all add: initialParcel_def)

lemma example_initial_state:
  "runUpTo net enc 0 (initialParcels clock0 [exampleQuery], world0) = ([exampleParcel], world0)"
  by (simp add: example_initial)

text \<open>
  C5. In a run over the initial records of the queries \<open>qs\<close>, let the state when
  the loop reaches record \<open>i\<close> be \<open>(ups_i, w_i)\<close>. If the commune lookup of
  record \<open>i\<close> is answered by a transport error, by a response that is not OK, or
  by an OK response with an unparsable, null or empty body, then the record ends
  as its initial record with status \<open>error\<close> and message \<open>Commune not found\<close>:
  \<open>inseeCode\<close> and \<open>geoJson\<close> stay absent. The only request made for the record
  is the commune request, so the geometry stage is not invoked. The loop goes on
  with record \<open>i + 1\<close>, and at its end every record has a terminal status.
\<close>

theorem C5_commune_not_found:
  assumes "i < length qs"
    and "runUpTo net enc i (initialParcels now qs, w) = (ups_i, w_i)"
    and "enc (communeName (qs ! i)) = Inr q"
    and "communeLookupFails (net (length (requests w_i)) (communeUrl q))"
  shows "finalRecords net enc now qs w ! i
           = (initialParcel now i (qs ! i))\<lparr>status := Error,
                errorMessage := Some (js ''Commune not found'')\<rparr>
       \<and> status (finalRecords net enc now qs w ! i) = Error
       \<and> errorMessage (finalRecords net enc now qs w ! i) = Some (js ''Commune not found'')
       \<and> inseeCode (finalRecords net enc now qs w ! i) = None
       \<and> geoJson (finalRecords net enc now qs w ! i) = None
       \<and> requests (snd (runUpTo net enc (Suc i) (initialParcels now qs, w)))
           = requests w_i @ [communeUrl q]
       \<and> resolveFrom net enc 0 (initialParcels now qs, w)
           = resolveFrom net enc (Suc i) (runUpTo net enc (Suc i) (initialParcels now qs, w))
       \<and> length (finalRecords net enc now qs w) = length qs
       \<and> (\<forall>j < length qs. terminal (status (finalRecords net enc now qs w ! j)))"
proof -
  note st = runUpTo_state_nth [OF assms(1,2)]
  have ins: "getInseeCode net enc (communeName (qs ! i)) w'
      = (Inr None, w'\<lparr>requests := requests w' @ [communeUrl q]\<rparr>)"
    if "requests w' = requests w_i" for w'
    using assms(3,4) that
    by (auto simp: getInseeCode_cases communeLookupFails_def
        split: fetch_result.splits body.splits bool.splits json.splits list.splits)
  have rr: "snd (resolveRecord net enc i (ups_i, w_i))
      = (ups_i[i := (initialParcel now i (qs ! i))\<lparr>status := Error,
                errorMessage := Some (js ''Commune not found'')\<rparr>],
         (setParcels (ups_i[i := (initialParcel now i (qs ! i))\<lparr>status := Loading\<rparr>]) w_i)
           \<lparr>requests := requests w_i @ [communeUrl q]\<rparr>)"
    using st by (simp add: resolveRecord_def Let_def ins setParcels_def)
  have a: "finalRecords net enc now qs w ! i
           = (initialParcel now i (qs ! i))\<lparr>status := Error,
                errorMessage := Some (js ''Commune not found'')\<rparr>"
    using finalRecords_nth [OF assms(1,2)] rr st assms(1) by simp
  have b: "requests (snd (runUpTo net enc (Suc i) (initialParcels now qs, w)))
           = requests w_i @ [communeUrl q]"
    using assms(2) rr by (simp add: setParcels_def)
  have c: "resolveFrom net enc 0 (initialParcels now qs, w)
           = resolveFrom net enc (Suc i) (runUpTo net enc (Suc i) (initialParcels now qs, w))"
    using assms(1) by (intro resolveFrom_runUpTo) (simp add: initialParcels_length)
  have d: "length (finalRecords net enc now qs w) = length qs"
    by (simp add: finalRecords_def resolveFrom_length initialParcels_length)
  have e: "\<forall>j < length qs. terminal (status (finalRecords net enc now qs w ! j))"
    using resolveFrom_terminal [of 0 _ "initialParcels now qs" net enc w]
    by (simp add: finalRecords_def initialParcels_length)
  from a b c d e show ?thesis by simp
qed

theorem C5_commune_not_found_witness:
  "finalRecords netNoCommune encPlain clock0 [exampleQuery] world0 ! 0
      = exampleParcel\<lparr>status := Error, errorMessage := Some (js ''Commune not found'')\<rparr>
   \<and> inseeCode (finalRecords netNoCommune encPlain clock0 [exampleQuery] world0 ! 0) = None
   \<and> requests (snd (runUpTo netNoCommune encPlain (Suc 0)
         (initialParcels clock0 [exampleQuery], world0))) = [communeUrl (js ''SCHORBACH'')]"
proof -
  have h1: "(0::nat) < length [exampleQuery]" by simp
  have h3: "encPlain (communeName ([exampleQuery] ! 0)) = Inr (js ''SCHORBACH'')"
    by (simp add: encPlain_def exampleQuery_def)
  have h4: "communeLookupFails (netNoCommune (length (requests world0)) (communeUrl (js ''SCHORBACH'')))"
    by (simp add: communeLookupFails_def netNoCommune_def)
  have h2: "runUpTo netNoCommune encPlain 0 (initialParcels clock0 [exampleQuery], world0)
      = ([exampleParcel], world0)"
    by (rule example_initial_state)
  from C5_commune_not_found [where i = 0 and qs = "[exampleQuery]" and net = netNoCommune
      and enc = encPlain and now = clock0 and w = world0 and ups_i = "[exampleParcel]"
      and w_i = world0 and q = "js ''SCHORBACH''", OF h1 h2 h3 h4]
  show ?thesis by (simp add: exampleParcel_def world0_def)
qed



section \<open>The geometry lookup and its retry\<close>

text \<open>
  C4. Every request of the geometry lookup carries the numero padded with zeros
  on the left to four characters. The lookup makes one request, and a second one
  exactly when the first response is not OK and the section is one character
  long; the second request has \<open>0\<close> before the section and the same padded
  numero. If the second response is OK its parsed body is the result; a section
  that is not one character long is not retried and the result is \<open>null\<close>. In a
  run, a record whose commune is found, whose first geometry response is not OK,
  whose section has one character and whose retry is answered OK with at least
  one feature, ends with status \<open>success\<close>, the code and the geometry on it, after
  exactly these three requests (Example 3).
\<close>

theorem C4_geometry_lookup_retry:
  "requests (snd (getParcelGeometry net insee sec num w))
     = requests w @
       (if notOk (net (length (requests w)) (geometryUrl insee sec num)) \<and> length sec = 1
        then [geometryUrl insee sec num, geometryUrl insee (48 # sec) num]
        else [geometryUrl insee sec num])
   \<and> geometryUrl insee sec num = API_CARTO_URL @ js ''/parcelle?code_insee='' @ insee
        @ js ''&section='' @ sec @ js ''&numero='' @ replicate (4 - length num) 48 @ num
   \<and> length (replicate (4 - length num) 48 @ num) = max 4 (length num)
   \<and> (notOk (net (length (requests w)) (geometryUrl insee sec num)) \<longrightarrow> length sec = 1
        \<longrightarrow> net (Suc (length (requests w))) (geometryUrl insee (48 # sec) num)
              = Response True (Parsed j)
        \<longrightarrow> fst (getParcelGeometry net insee sec num w) = Inr j)
   \<and> (notOk (net (length (requests w)) (geometryUrl insee sec num)) \<longrightarrow> length sec \<noteq> 1
        \<longrightarrow> fst (getParcelGeometry net insee sec num w) = Inr JNull)
   \<and> (i < length qs
        \<longrightarrow> runUpTo net enc i (initialParcels now qs, w) = (ups_i, w_i)
        \<longrightarrow> enc (communeName (qs ! i)) = Inr q
        \<longrightarrow> net (length (requests w_i)) (communeUrl q) = Response True (Parsed (JCommunes (d # ds)))
        \<longrightarrow> code d \<noteq> []
        \<longrightarrow> length (section' (qs ! i)) = 1
        \<longrightarrow> notOk (net (Suc (length (requests w_i)))
                     (geometryUrl (code d) (section' (qs ! i)) (numero (qs ! i))))
        \<longrightarrow> net (Suc (Suc (length (requests w_i))))
                     (geometryUrl (code d) (48 # section' (qs ! i)) (numero (qs ! i)))
              = Response True (Parsed (JGeo g))
        \<longrightarrow> gj_features g = Some (f # fs)
        \<longrightarrow> finalRecords net enc now qs w ! i
              = (initialParcel now i (qs ! i))\<lparr>inseeCode := Some (code d), geoJson := Some g,
                                                status := Success\<rparr>
          \<and> status (finalRecords net enc now qs w ! i) = Success
          \<and> requests (snd (runUpTo net enc (Suc i) (initialParcels now qs, w)))
              = requests w_i @ [communeUrl q,
                  geometryUrl (code d) (section' (qs ! i)) (numero (qs ! i)),
                  geometryUrl (code d) (48 # section' (qs ! i)) (numero (qs ! i))])"
proof (intro conjI)
  show "requests (snd (getParcelGeometry net insee sec num w))
     = requests w @
       (if notOk (net (length (requests w)) (geometryUrl insee sec num)) \<and> length sec = 1
        then [geometryUrl insee sec num, geometryUrl insee (48 # sec) num]
        else [geometryUrl insee sec num])"
    by (simp add: getParcelGeometry_cases geometryUrl_def notOk_def Let_def
        split: fetch_result.splits body.splits bool.splits)
  show "geometryUrl insee sec num = API_CARTO_URL @ js ''/parcelle?code_insee='' @ insee
        @ js ''&section='' @ sec @ js ''&numero='' @ replicate (4 - length num) 48 @ num"
    by (simp add: geometryUrl_def parcelleUrl_def padStart_def)
  show "length (replicate (4 - length num) 48 @ num) = max 4 (length num)"
    by simp
  show "notOk (net (length (requests w)) (geometryUrl insee sec num)) \<longrightarrow> length sec = 1
        \<longrightarrow> net (Suc (length (requests w))) (geometryUrl insee (48 # sec) num)
              = Response True (Parsed j)
        \<longrightarrow> fst (getParcelGeometry net insee sec num w) = Inr j"
    by (simp add: getParcelGeometry_cases geometryUrl_def notOk_def Let_def
        split: fetch_result.splits body.splits bool.splits)
  show "notOk (net (length (requests w)) (geometryUrl insee sec num)) \<longrightarrow> length sec \<noteq> 1
        \<longrightarrow> fst (getParcelGeometry net insee sec num w) = Inr JNull"
    by (simp add: getParcelGeometry_cases geometryUrl_def notOk_def Let_def
        split: fetch_result.splits body.splits bool.splits)
  show "i < length qs
        \<longrightarrow> runUpTo net enc i (initialParcels now qs, w) = (ups_i, w_i)
        \<longrightarrow> enc (communeName (qs ! i)) = Inr q
        \<longrightarrow> net (length (requests w_i)) (communeUrl q) = Response True (Parsed (JCommunes (d # ds)))
        \<longrightarrow> code d \<noteq> []
        \<longrightarrow> length (section' (qs ! i)) = 1
        \<longrightarrow> notOk (net (Suc (length (requests w_i)))
                     (geometryUrl (code d) (section' (qs ! i)) (numero (qs ! i))))
        \<longrightarrow> net (Suc (Suc (length (requests w_i))))
                     (geometryUrl (code d) (48 # section' (qs ! i)) (numero (qs ! i)))
              = Response True (Parsed (JGeo g))
        \<longrightarrow> gj_features g = Some (f # fs)
        \<longrightarrow> finalRecords net enc now qs w ! i
              = (initialParcel now i (qs ! i))\<lparr>inseeCode := Some (code d), geoJson := Some g,
                                                status := Success\<rparr>
          \<and> status (finalRecords net enc now qs w ! i) = Success
          \<and> requests (snd (runUpTo net enc (Suc i) (initialParcels now qs, w)))
              = requests w_i @ [communeUrl q,
                  geometryUrl (code d) (section' (qs ! i)) (numero (qs ! i)),
                  geometryUrl (code d) (48 # section' (qs ! i)) (numero (qs ! i))]"
  proof (intro impI)
    assume i: "i < length qs"
      and r: "runUpTo net enc i (initialParcels now qs, w) = (ups_i, w_i)"
      and e: "enc (communeName (qs ! i)) = Inr q"
      and c: "net (length (requests w_i)) (communeUrl q) = Response True (Parsed (JCommunes (d # ds)))"
      and d: "code d \<noteq> []"
      and l: "length (section' (qs ! i)) = 1"
      and n1: "notOk (net (Suc (length (requests w_i)))
                     (geometryUrl (code d) (section' (qs ! i)) (numero (qs ! i))))"
      and n2: "net (Suc (Suc (length (requests w_i))))
                     (geometryUrl (code d) (48 # section' (qs ! i)) (numero (qs ! i)))
              = Response True (Parsed (JGeo g))"
      and g: "gj_features g = Some (f # fs)"
    note st = runUpTo_state_nth [OF i r]
    have ins: "getInseeCode net enc (communeName (qs ! i)) w'
        = (Inr (Some (code d)), w'\<lparr>requests := requests w_i @ [communeUrl q]\<rparr>)"
      if "requests w' = requests w_i" for w'
      using e c that by (simp add: getInseeCode_cases)
    have geo: "getParcelGeometry net (code d) (section' (qs ! i)) (numero (qs ! i)) w'
        = (Inr (JGeo g), w'\<lparr>requests := requests w_i @ [communeUrl q,
                  geometryUrl (code d) (section' (qs ! i)) (numero (qs ! i)),
                  geometryUrl (code d) (48 # section' (qs ! i)) (numero (qs ! i))]\<rparr>)"
      if "requests w' = requests w_i @ [communeUrl q]" for w'
      using n1 n2 l that
      by (simp add: getParcelGeometry_cases geometryUrl_def notOk_def Let_def
          split: fetch_result.splits bool.splits)
    have wf: "withFeatures (JGeo g) = Some g"
      using g by (simp add: withFeatures_def)
    have rr: "fst (snd (resolveRecord net enc i (ups_i, w_i)))
          = ups_i[i := (initialParcel now i (qs ! i))\<lparr>inseeCode := Some (code d),
                geoJson := Some g, status := Success\<rparr>]
        \<and> requests (snd (snd (resolveRecord net enc i (ups_i, w_i))))
          = requests w_i @ [communeUrl q,
                  geometryUrl (code d) (section' (qs ! i)) (numero (qs ! i)),
                  geometryUrl (code d) (48 # section' (qs ! i)) (numero (qs ! i))]"
      using st d
      by (simp add: resolveRecord_def Let_def ins geo wf setParcels_def)
    have a: "finalRecords net enc now qs w ! i
              = (initialParcel now i (qs ! i))\<lparr>inseeCode := Some (code d), geoJson := Some g,
                    status := Success\<rparr>"
      using finalRecords_nth [OF i r] rr st i by simp
    have b: "requests (snd (runUpTo net enc (Suc i) (initialParcels now qs, w)))
              = requests w_i @ [communeUrl q,
                  geometryUrl (code d) (section' (qs ! i)) (numero (qs ! i)),
                  geometryUrl (code d) (48 # section' (qs ! i)) (numero (qs ! i))]"
      using r rr by simp
    from a b show "finalRecords net enc now qs w ! i
              = (initialParcel now i (qs ! i))\<lparr>inseeCode := Some (code d), geoJson := Some g,
                                                status := Success\<rparr>
          \<and> status (finalRecords net enc now qs w ! i) = Success
          \<and> requests (snd (runUpTo net enc (Suc i) (initialParcels now qs, w)))
              = requests w_i @ [communeUrl q,
                  geometryUrl (code d) (section' (qs ! i)) (numero (qs ! i)),
                  geometryUrl (code d) (48 # section' (qs ! i)) (numero (qs ! i))]"
      by simp
  qed
qed


theorem C4_geometry_lookup_retry_witness:
  "fst (getParcelGeometry netRetry (js ''57639'') (js ''C'') (js ''584'')
          (world0\<lparr>requests := [communeUrl (js ''SCHORBACH'')]\<rparr>)) = Inr (JGeo exampleCollection)
   \<and> fst (getParcelGeometry netRetry (js ''57639'') (js ''AB'') (js ''584'')
          (world0\<lparr>requests := [communeUrl (js ''SCHORBACH'')]\<rparr>)) = Inr JNull
   \<and> status (finalRecords netRetry encPlain clock0 [exampleQuery] world0 ! 0) = Success
   \<and> requests (snd (runUpTo netRetry encPlain (Suc 0)
         (initialParcels clock0 [exampleQuery], world0)))
       = [communeUrl (js ''SCHORBACH''), geometryUrl (js ''57639'') (js ''C'') (js ''584''),
          geometryUrl (js ''57639'') (js ''0C'') (js ''584'')]"
proof -
  define w1 where "w1 = world0\<lparr>requests := [communeUrl (js ''SCHORBACH'')]\<rparr>"
  have len: "length (requests w1) = 1" by (simp add: w1_def)
  have n1: "notOk (netRetry 1 url)" for url by (simp add: notOk_def netRetry_def)
  have n2: "netRetry (Suc 1) url = Response True (Parsed (JGeo exampleCollection))" for url
    by (simp add: netRetry_def)
  have a: "fst (getParcelGeometry netRetry (js ''57639'') (js ''C'') (js ''584'') w1)
      = Inr (JGeo exampleCollection)"
    using C4_geometry_lookup_retry [where net = netRetry and insee = "js ''57639''"
        and sec = "js ''C''" and num = "js ''584''" and w = w1 and j = "JGeo exampleCollection"]
      n1 n2 len
    by (simp add: js_def)
  have b: "fst (getParcelGeometry netRetry (js ''57639'') (js ''AB'') (js ''584'') w1) = Inr JNull"
    using C4_geometry_lookup_retry [where net = netRetry and insee = "js ''57639''"
        and sec = "js ''AB''" and num = "js ''584''" and w = w1]
      n1 len
    by (simp add: js_def)
  have h2: "runUpTo netRetry encPlain 0 (initialParcels clock0 [exampleQuery], world0)
      = ([exampleParcel], world0)"
    by (rule example_initial_state)
  have c: "status (finalRecords netRetry encPlain clock0 [exampleQuery] world0 ! 0) = Success
   \<and> requests (snd (runUpTo netRetry encPlain (Suc 0)
         (initialParcels clock0 [exampleQuery], world0)))
       = [communeUrl (js ''SCHORBACH''), geometryUrl (js ''57639'') (js ''C'') (js ''584''),
          geometryUrl (js ''57639'') (js ''0C'') (js ''584'')]"
    using C4_geometry_lookup_retry [where net = netRetry and i = 0 and qs = "[exampleQuery]"
        and enc = encPlain and now = clock0 and w = world0 and ups_i = "[exampleParcel]"
        and w_i = world0 and q = "js ''SCHORBACH''"
        and d = "\<lparr>nom = js ''Schorbach'', code = js ''57639'', codesPostaux = []\<rparr>"
        and ds = "[]" and g = exampleCollection
        and f = "Feature (Some (Polygon [triangle]))" and fs = "[]"]
      h2
    by (simp add: netRetry_def notOk_def encPlain_def exampleQuery_def world0_def
        exampleCollection_def js_def)
  from a b c show ?thesis by (simp add: w1_def)
qed



section \<open>The invariant of published records\<close>

text \<open>One iteration keeps the invariant on the local array and publishes only
  lists that satisfy it, as long as the record it starts on is still pending.\<close>

lemma recordInvariant_fresh:
  "geoJson r = None \<Longrightarrow> errorMessage r = None \<Longrightarrow> status r = Pending \<or> status r = Loading
     \<Longrightarrow> recordInvariant r"
  by (auto simp: recordInvariant_def)

lemma recordInvariant_pending:
  "recordInvariant r \<Longrightarrow> status r = Pending \<Longrightarrow> geoJson r = None \<and> errorMessage r = None"
  by (auto simp: recordInvariant_def)

lemma withFeatures_Some:
  "withFeatures j = Some g \<Longrightarrow> \<exists>f fs. gj_features g = Some (f # fs)"
  by (auto simp: withFeatures_def split: json.splits option.splits list.splits)

lemma set_update_all:
  "\<forall>r\<in>set xs. P r \<Longrightarrow> P x \<Longrightarrow> \<forall>r\<in>set (xs[i := x]). P r"
  using set_update_subset_insert [of xs i x] by auto

lemma resolveRecord_invariant:
  assumes "i < length ups" and "\<forall>r\<in>set ups. recordInvariant r" and "status (ups ! i) = Pending"
  shows "(\<forall>r\<in>set (fst (snd (resolveRecord net enc i (ups, w)))). recordInvariant r)
       \<and> (\<exists>ext. published (snd (snd (resolveRecord net enc i (ups, w)))) = published w @ ext
              \<and> (\<forall>snap\<in>set ext. \<forall>r\<in>set snap. recordInvariant r))"
proof -
  define p where "p = ups ! i"
  from assms have p: "recordInvariant p" "geoJson p = None" "errorMessage p = None" "status p = Pending"
    using recordInvariant_pending [of p] by (simp_all add: p_def)
  define ups1 where "ups1 = ups[i := p\<lparr>status := Loading\<rparr>]"
  have l: "recordInvariant (p\<lparr>status := Loading\<rparr>)"
    using p by (simp add: recordInvariant_def)
  have ups1: "\<forall>r\<in>set ups1. recordInvariant r"
    unfolding ups1_def using assms(2) l by (rule set_update_all)
  define w1 where "w1 = setParcels ups1 w"
  obtain r1 w2 where g1: "getInseeCode net enc (communeName p) w1 = (Inr r1, w2)"
    using getInseeCode_total [of net enc "communeName p" w1]
    by (cases "getInseeCode net enc (communeName p) w1") auto
  have pw2: "published w2 = published w @ [ups1]"
    using getInseeCode_published [of net enc "communeName p" w1] g1
    by (simp add: w1_def setParcels_def)
  show ?thesis
  proof (cases "r1 = None \<or> r1 = Some []")
    case True
    define perr where "perr = p\<lparr>status := Error, errorMessage := Some (js ''Commune not found'')\<rparr>"
    have e: "recordInvariant perr" using p by (simp add: recordInvariant_def perr_def)
    have rr: "snd (resolveRecord net enc i (ups, w)) = (ups1[i := perr], w2)"
      using True g1
      by (auto simp: resolveRecord_def Let_def p_def [symmetric] ups1_def [symmetric]
          w1_def [symmetric] perr_def)
    have "\<forall>r\<in>set (ups1[i := perr]). recordInvariant r"
      using ups1 e by (rule set_update_all)
    with rr pw2 ups1 show ?thesis by simp
  next
    case False
    then obtain c where c: "r1 = Some c" "c \<noteq> []" by (cases r1) auto
    obtain j w3 where g2: "getParcelGeometry net c (section' p) (numero p) w2 = (Inr j, w3)"
      using getParcelGeometry_total [of net c "section' p" "numero p" w2]
      by (cases "getParcelGeometry net c (section' p) (numero p) w2") auto
    have pw3: "published w3 = published w @ [ups1]"
      using getParcelGeometry_published [of net c "section' p" "numero p" w2] g2 pw2 by simp
    define pfin where "pfin = (case withFeatures j of
         Some g \<Rightarrow> p\<lparr>inseeCode := r1, geoJson := Some g, status := Success\<rparr>
       | None \<Rightarrow> p\<lparr>inseeCode := r1, status := Error,
            errorMessage := Some (js ''Parcel geometry not found in Cadastre'')\<rparr>)"
    have f: "recordInvariant pfin"
      using p withFeatures_Some [of j]
      by (auto simp: recordInvariant_def pfin_def split: option.splits)
    have rr: "snd (resolveRecord net enc i (ups, w))
        = (ups1[i := pfin], setParcels (ups1[i := pfin]) w3)"
      using c g1 g2
      by (auto simp: resolveRecord_def Let_def p_def [symmetric] ups1_def [symmetric]
          w1_def [symmetric] pfin_def split: option.splits)
    have "\<forall>r\<in>set (ups1[i := pfin]). recordInvariant r"
      using ups1 f by (rule set_update_all)
    with rr pw3 ups1 show ?thesis by (simp add: setParcels_def)
  qed
qed

lemma resolveFrom_invariant:
  assumes "\<forall>r\<in>set ups. recordInvariant r"
    and "\<forall>j. i \<le> j \<and> j < length ups \<longrightarrow> status (ups ! j) = Pending"
  shows "\<exists>ext. published (snd (snd (resolveFrom net enc i (ups, w)))) = published w @ ext
           \<and> (\<forall>snap\<in>set ext. \<forall>r\<in>set snap. recordInvariant r)"
  using assms
proof (induction "length ups - i" arbitrary: i ups w)
  case 0
  then show ?case by (simp add: resolveFrom_done)
next
  case (Suc k)
  then have lt: "i < length ups" by simp
  obtain ups' w' where s: "snd (resolveRecord net enc i (ups, w)) = (ups', w')"
    by (cases "snd (resolveRecord net enc i (ups, w))")
  then have len: "length ups' = length ups"
    using resolveRecord_length [of net enc i ups w] by simp
  from Suc(4) lt have pend: "status (ups ! i) = Pending" by simp
  from resolveRecord_invariant [OF lt Suc(3) pend, of net enc w] s
  obtain ext where inv: "\<forall>r\<in>set ups'. recordInvariant r"
    and pub: "published w' = published w @ ext"
    and ext: "\<forall>snap\<in>set ext. \<forall>r\<in>set snap. recordInvariant r"
    by auto
  have later: "\<forall>j. Suc i \<le> j \<and> j < length ups' \<longrightarrow> status (ups' ! j) = Pending"
  proof (intro allI impI)
    fix j assume j: "Suc i \<le> j \<and> j < length ups'"
    then have "ups' ! j = ups ! j"
      using resolveRecord_nth_other [of j i net enc ups w] s by simp
    with j len Suc(4) show "status (ups' ! j) = Pending" by simp
  qed
  from len Suc(2) have "k = length ups' - Suc i" by simp
  from Suc(1) [OF this inv later, of w'] obtain ext2 where
    e2: "published (snd (snd (resolveFrom net enc (Suc i) (ups', w')))) = published w' @ ext2"
    and i2: "\<forall>snap\<in>set ext2. \<forall>r\<in>set snap. recordInvariant r"
    by auto
  from e2 pub have "published (snd (snd (resolveFrom net enc i (ups, w)))) = published w @ (ext @ ext2)"
    using lt s by (simp add: resolveFrom_step)
  moreover from ext i2 have "\<forall>snap\<in>set (ext @ ext2). \<forall>r\<in>set snap. recordInvariant r"
    by auto
  ultimately show ?case by blast
qed

lemma initialParcels_invariant:
  "(\<forall>r\<in>set (initialParcels now qs). recordInvariant r)
   \<and> (\<forall>j. j < length (initialParcels now qs) \<longrightarrow> status (initialParcels now qs ! j) = Pending)"
proof -
  have "\<forall>j. j < length qs \<longrightarrow> recordInvariant (initialParcels now qs ! j)
       \<and> status (initialParcels now qs ! j) = Pending"
    by (simp add: initialParcels_nth recordInvariant_fresh)
  then show ?thesis
    by (auto simp: in_set_conv_nth initialParcels_length)
qed

lemma handleProcess_published:
  "\<exists>ext. published (snd (handleProcess net enc ai now useAiParsing inputText w)) = published w @ ext
     \<and> (\<forall>snap\<in>set ext. \<forall>r\<in>set snap. recordInvariant r)"
proof (cases "trim inputText = []")
  case True
  then show ?thesis by (simp add: handleProcess_def)
next
  case False
  show ?thesis
  proof (cases "fst (extractParcels ai useAiParsing inputText w)")
    case (Inl e)
    then have "published (snd (handleProcess net enc ai now useAiParsing inputText w)) = published w @ [[]]"
      using False
      by (auto simp: handleProcess_def Let_def extractParcels_def onError_def setParcels_def
          split: prod.splits sum.splits if_splits)
    then show ?thesis by simp
  next
    case (Inr qs)
    from handleProcess_loop [OF False Inr, of now net enc] obtain w3 where
      p3: "published w3 = published w @ [[], initialParcels now qs]"
      and s: "snd (handleProcess net enc ai now useAiParsing inputText w)
          = (snd (snd (resolveFrom net enc 0 (initialParcels now qs, w3))))
              \<lparr>appStatus := COMPLETED, progressMessage := js ''Processing complete.''\<rparr>"
      by blast
    from initialParcels_invariant [of now qs]
    have i1: "\<forall>r\<in>set (initialParcels now qs). recordInvariant r"
      and i2: "\<forall>j. 0 \<le> j \<and> j < length (initialParcels now qs)
          \<longrightarrow> status (initialParcels now qs ! j) = Pending"
      by simp_all
    from resolveFrom_invariant [OF i1 i2, of net enc w3] obtain ext where
      e: "published (snd (snd (resolveFrom net enc 0 (initialParcels now qs, w3)))) = published w3 @ ext"
      and ie: "\<forall>snap\<in>set ext. \<forall>r\<in>set snap. recordInvariant r"
      by blast
    from e p3 s have "published (snd (handleProcess net enc ai now useAiParsing inputText w))
        = published w @ ([[], initialParcels now qs] @ ext)" by simp
    moreover from i1 ie have "\<forall>snap\<in>set ([[], initialParcels now qs] @ ext). \<forall>r\<in>set snap. recordInvariant r"
      by auto
    ultimately show ?thesis by blast
  qed
qed

text \<open>The run of Example 3 on one line.\<close>

lemma record_retry:
  "requests w = [] \<Longrightarrow>
   snd (resolveRecord netRetry encPlain 0 ([exampleParcel], w)) =
     ([exampleParcel\<lparr>inseeCode := Some (js ''57639''), geoJson := Some exampleCollection,
                 status := Success\<rparr>],
      w\<lparr>parcels := [exampleParcel\<lparr>inseeCode := Some (js ''57639''),
                 geoJson := Some exampleCollection, status := Success\<rparr>],
        published := published w @ [[exampleParcel\<lparr>status := Loading\<rparr>],
           [exampleParcel\<lparr>inseeCode := Some (js ''57639''), geoJson := Some exampleCollection,
                 status := Success\<rparr>]],
        requests := [communeUrl (js ''SCHORBACH''), geometryUrl (js ''57639'') (js ''C'') (js ''584''),
          geometryUrl (js ''57639'') (js ''0C'') (js ''584'')]\<rparr>)"
  by (simp add: resolveRecord_def getInseeCode_cases getParcelGeometry_cases netRetry_def
      encPlain_def setParcels_def Let_def withFeatures_def exampleCollection_def geometryUrl_def
      exampleParcel_def initialParcel_def exampleQuery_def js_def)

lemma loop_retry:
  "requests w = [] \<Longrightarrow>
   resolveFrom netRetry encPlain 0 ([exampleParcel], w) =
     (Inr (), [exampleParcel\<lparr>inseeCode := Some (js ''57639''), geoJson := Some exampleCollection,
                 status := Success\<rparr>],
      w\<lparr>parcels := [exampleParcel\<lparr>inseeCode := Some (js ''57639''),
                 geoJson := Some exampleCollection, status := Success\<rparr>],
        published := published w @ [[exampleParcel\<lparr>status := Loading\<rparr>],
           [exampleParcel\<lparr>inseeCode := Some (js ''57639''), geoJson := Some exampleCollection,
                 status := Success\<rparr>]],
        requests := [communeUrl (js ''SCHORBACH''), geometryUrl (js ''57639'') (js ''C'') (js ''584''),
          geometryUrl (js ''57639'') (js ''0C'') (js ''584'')]\<rparr>)"
  by (simp add: resolveFrom_step record_retry resolveFrom_done)

lemma handleProcess_retry:
  "published (snd (handleProcess netRetry encPlain aiDown clock0 False
       (js ''SCHORBACH S C No 584'') world0))
     = [[], [exampleParcel], [exampleParcel\<lparr>status := Loading\<rparr>],
        [exampleParcel\<lparr>inseeCode := Some (js ''57639''), geoJson := Some exampleCollection,
                 status := Success\<rparr>]]"
  by (simp add: handleProcess_def example_line_nonblank extractParcels_def example_line_parsed
      example_initial loop_retry setParcels_def world0_def Let_def)

text \<open>
  C3. Every record of every list that a run of \<open>handleProcess\<close> publishes, from
  any starting state and on any network, carries \<open>geoJson\<close> exactly when its
  status is \<open>success\<close>, and then the feature array of the geometry has a member;
  it carries \<open>errorMessage\<close> exactly when its status is \<open>error\<close>; a pending or
  loading record carries neither.
\<close>

theorem C3_published_records_invariant:
  "\<forall>snap \<in> set (drop (length (published w))
       (published (snd (handleProcess net enc ai now useAiParsing inputText w)))).
     \<forall>r \<in> set snap.
        ((geoJson r \<noteq> None) = (status r = Success))
      \<and> ((errorMessage r \<noteq> None) = (status r = Error))
      \<and> (\<forall>g. geoJson r = Some g \<longrightarrow> (\<exists>f fs. gj_features g = Some (f # fs)))
      \<and> (status r = Pending \<or> status r = Loading \<longrightarrow> geoJson r = None \<and> errorMessage r = None)"
proof -
  from handleProcess_published [of net enc ai now useAiParsing inputText w] obtain ext where
    e: "published (snd (handleProcess net enc ai now useAiParsing inputText w)) = published w @ ext"
    and i: "\<forall>snap\<in>set ext. \<forall>r\<in>set snap. recordInvariant r"
    by blast
  have key: "((geoJson r \<noteq> None) = (status r = Success))
      \<and> ((errorMessage r \<noteq> None) = (status r = Error))
      \<and> (\<forall>g. geoJson r = Some g \<longrightarrow> (\<exists>f fs. gj_features g = Some (f # fs)))
      \<and> (status r = Pending \<or> status r = Loading \<longrightarrow> geoJson r = None \<and> errorMessage r = None)"
    if "recordInvariant r" for r
    using that by (auto simp: recordInvariant_def split: option.splits list.splits)
  show ?thesis
    unfolding e
  proof (intro ballI)
    fix snap r
    assume "snap \<in> set (drop (length (published w)) (published w @ ext))" and "r \<in> set snap"
    with i have "recordInvariant r" by simp
    then show "((geoJson r \<noteq> None) = (status r = Success))
      \<and> ((errorMessage r \<noteq> None) = (status r = Error))
      \<and> (\<forall>g. geoJson r = Some g \<longrightarrow> (\<exists>f fs. gj_features g = Some (f # fs)))
      \<and> (status r = Pending \<or> status r = Loading \<longrightarrow> geoJson r = None \<and> errorMessage r = None)"
      by (rule key)
  qed
qed

theorem C3_published_records_invariant_witness:
  "geoJson (exampleParcel\<lparr>inseeCode := Some (js ''57639''), geoJson := Some exampleCollection,
                 status := Success\<rparr>) \<noteq> None
   \<and> errorMessage (exampleParcel\<lparr>inseeCode := Some (js ''57639''),
        geoJson := Some exampleCollection, status := Success\<rparr>) = None
   \<and> (\<exists>f fs. gj_features exampleCollection = Some (f # fs))
   \<and> geoJson (exampleParcel\<lparr>status := Loading\<rparr>) = None
   \<and> errorMessage (exampleParcel\<lparr>status := Loading\<rparr>) = None"
proof -
  define run where "run = published (snd (handleProcess netRetry encPlain aiDown clock0 False
       (js ''SCHORBACH S C No 584'') world0))"
  have pw: "published world0 = []" by (simp add: world0_def)
  have m1: "[exampleParcel\<lparr>inseeCode := Some (js ''57639''), geoJson := Some exampleCollection,
                 status := Success\<rparr>] \<in> set (drop (length (published world0)) run)"
    and m2: "[exampleParcel\<lparr>status := Loading\<rparr>] \<in> set (drop (length (published world0)) run)"
    using pw by (simp_all add: run_def handleProcess_retry)
  note t = C3_published_records_invariant [of world0 netRetry encPlain aiDown clock0 False
      "js ''SCHORBACH S C No 584''", folded run_def]
  from t m1 have "\<forall>r\<in>set [exampleParcel\<lparr>inseeCode := Some (js ''57639''),
      geoJson := Some exampleCollection, status := Success\<rparr>].
        ((geoJson r \<noteq> None) = (status r = Success))
      \<and> ((errorMessage r \<noteq> None) = (status r = Error))
      \<and> (\<forall>g. geoJson r = Some g \<longrightarrow> (\<exists>f fs. gj_features g = Some (f # fs)))
      \<and> (status r = Pending \<or> status r = Loading \<longrightarrow> geoJson r = None \<and> errorMessage r = None)"
    by (rule bspec)
  then have a: "errorMessage (exampleParcel\<lparr>inseeCode := Some (js ''57639''),
        geoJson := Some exampleCollection, status := Success\<rparr>) = None
      \<and> (\<exists>f fs. gj_features exampleCollection = Some (f # fs))"
    by simp
  from t m2 have "\<forall>r\<in>set [exampleParcel\<lparr>status := Loading\<rparr>].
        ((geoJson r \<noteq> None) = (status r = Success))
      \<and> ((errorMessage r \<noteq> None) = (status r = Error))
      \<and> (\<forall>g. geoJson r = Some g \<longrightarrow> (\<exists>f fs. gj_features g = Some (f # fs)))
      \<and> (status r = Pending \<or> status r = Loading \<longrightarrow> geoJson r = None \<and> errorMessage r = None)"
    by (rule bspec)
  then have b: "geoJson (exampleParcel\<lparr>status := Loading\<rparr>) = None
      \<and> errorMessage (exampleParcel\<lparr>status := Loading\<rparr>) = None"
    by simp
  from a b show ?thesis by simp
qed



section \<open>The area of a geometry\<close>

text \<open>The loop of \<open>getRingArea\<close> computes the sum of the specification; on a
  ring of fewer than three vertices that sum is zero, which is what the guard of
  the source returns.\<close>

lemma ringLoop_sum:
  "ringLoop coords i area = area + (\<Sum>k = i..<length coords. ringTerm coords k)"
proof (induction coords i area rule: ringLoop.induct)
  case (1 coords i area)
  show ?case
  proof (cases "i < length coords")
    case True
    with 1 show ?thesis
      by (subst ringLoop.simps) (simp add: sum.atLeast_Suc_lessThan add.assoc)
  next
    case False
    then show ?thesis by (subst ringLoop.simps) simp
  qed
qed

lemma ringTerm_spec:
  "ringTerm coords i =
     radians (fst (coords ! ((i + 1) mod length coords)) - fst (coords ! i))
       * (2 + sin (radians (snd (coords ! i)))
            + sin (radians (snd (coords ! ((i + 1) mod length coords)))))"
  by (simp add: ringTerm_def radians_def split: prod.splits)

lemma ringLoop_ringSum: "ringLoop coords 0 0 = ringSum coords"
  by (simp add: ringLoop_sum ringSum_def ringTerm_spec atLeast0LessThan)

lemma ringSum_degenerate: "length coords < 3 \<Longrightarrow> ringSum coords = 0"
proof -
  assume "length coords < 3"
  then consider "length coords = 0" | "length coords = 1" | "length coords = 2"
    by linarith
  then show ?thesis
  proof cases
    case 1
    then show ?thesis by (simp add: ringSum_def)
  next
    case 2
    then show ?thesis by (simp add: ringSum_def radians_def)
  next
    case 3
    then have "{..<length coords} = {0, 1}" by auto
    with 3 have "ringSum coords =
        radians (fst (coords ! 1) - fst (coords ! 0))
          * (2 + sin (radians (snd (coords ! 0))) + sin (radians (snd (coords ! 1))))
      + radians (fst (coords ! 0) - fst (coords ! 1))
          * (2 + sin (radians (snd (coords ! 1))) + sin (radians (snd (coords ! 0))))"
      by (simp add: ringSum_def)
    also have "radians (fst (coords ! 0) - fst (coords ! 1))
        = - radians (fst (coords ! 1) - fst (coords ! 0))"
      by (simp add: radians_def diff_divide_distrib left_diff_distrib)
    finally show ?thesis by (simp add: add.commute)
  qed
qed

lemma getRingArea_spec: "getRingArea coords = ringArea_spec coords"
proof (cases "length coords > 2")
  case True
  have "\<bar>ringSum coords * 6378137 * 6378137 / 2\<bar> = \<bar>ringSum coords\<bar> * (6378137\<^sup>2 / 2)"
    by (simp add: abs_mult power2_eq_square)
  with True show ?thesis
    by (simp add: getRingArea_def ringArea_spec_def ringLoop_ringSum earthRadius_def)
next
  case False
  then have "ringSum coords = 0" by (intro ringSum_degenerate) simp
  with False show ?thesis
    by (simp add: getRingArea_def ringArea_spec_def)
qed

lemma ringArea_spec_nonneg: "0 \<le> ringArea_spec coords"
  by (simp add: ringArea_spec_def)

lemma polygonArea_spec_nonneg: "0 \<le> polygonArea_spec rings"
  by (cases rings) (simp_all add: ringArea_spec_nonneg)

lemma featureArea_spec_nonneg: "0 \<le> featureArea_spec f"
  by (auto simp: featureArea_spec_def polygonArea_spec_nonneg intro!: sum_list_nonneg
      split: option.splits geometry.splits)

lemma polysArea_spec:
  "list_all (\<lambda>poly. poly \<noteq> []) polys \<Longrightarrow>
     polysArea polys acc = Inr (acc + sum_list (map polygonArea_spec polys))"
proof (induction polys arbitrary: acc)
  case Nil
  show ?case by simp
next
  case (Cons poly polys)
  then obtain outer holes where p: "poly = outer # holes" by (cases poly) auto
  from Cons show ?case
    by (simp add: p outerRingArea_def getRingArea_spec add.assoc)
qed

lemma featureArea_spec_cases:
  "f_geometry f = None \<Longrightarrow> featureArea_spec f = 0"
  "f_geometry f = Some (Polygon rings) \<Longrightarrow> featureArea_spec f = polygonArea_spec rings"
  "f_geometry f = Some (MultiPolygon polys)
     \<Longrightarrow> featureArea_spec f = sum_list (map polygonArea_spec polys)"
  "f_geometry f = Some OtherGeometry \<Longrightarrow> featureArea_spec f = 0"
  by (simp_all add: featureArea_spec_def)

lemma featuresArea_spec:
  "list_all hasOuterRings fs \<Longrightarrow>
     featuresArea fs acc = Inr (acc + sum_list (map featureArea_spec fs))"
proof (induction fs arbitrary: acc)
  case Nil
  show ?case by simp
next
  case (Cons f fs)
  then have tl: "\<And>t. featuresArea fs t = Inr (t + sum_list (map featureArea_spec fs))"
    and hd: "hasOuterRings f"
    by simp_all
  show ?case
  proof (cases "f_geometry f")
    case None
    then show ?thesis by (simp add: tl featureArea_spec_cases)
  next
    case (Some geom)
    show ?thesis
    proof (cases geom)
      case (Polygon rings)
      with Some hd obtain outer holes where r: "rings = outer # holes"
        by (cases rings) (auto simp: hasOuterRings_def)
      with Some Polygon show ?thesis
        by (simp add: tl featureArea_spec_cases outerRingArea_def getRingArea_spec add.assoc)
    next
      case (MultiPolygon polys)
      with Some hd have "list_all (\<lambda>poly. poly \<noteq> []) polys"
        by (simp add: hasOuterRings_def)
      with Some MultiPolygon show ?thesis
        by (simp add: tl featureArea_spec_cases polysArea_spec add.assoc)
    next
      case OtherGeometry
      with Some show ?thesis by (simp add: tl featureArea_spec_cases)
    qed
  qed
qed

lemma featuresArea_skip:
  "featuresArea (fs1 @ Feature None # fs2) acc = featuresArea (fs1 @ fs2) acc"
  by (induction fs1 arbitrary: acc)
    (auto split: option.splits geometry.splits sum.splits)

text \<open>
  C6. The area the source computes for a ring is the absolute value of the sum,
  over the consecutive vertex pairs of the ring with the last wrapping to the
  first, of the longitude difference in radians times
  \<open>2 + sin lat1 + sin lat2\<close>, multiplied by \<open>R\<^sup>2 / 2\<close> with \<open>R = 6378137\<close>. For
  a polygon only the first (outer) ring counts, whatever the holes are; a
  MultiPolygon counts the outer ring of each member; and the area of a feature
  collection, every polygon of which has an outer ring, is the sum of the areas
  of its features. Numbers are real numbers here.
\<close>

theorem C6_area_formula:
  "getRingArea coords = \<bar>ringSum coords\<bar> * (6378137\<^sup>2 / 2)
   \<and> (featureList g = Inr fs \<longrightarrow> list_all hasOuterRings fs
        \<longrightarrow> calculateGeoJsonArea (Some g) = Inr (\<Sum>f\<leftarrow>fs. featureArea_spec f))
   \<and> (gj_type g = js ''FeatureCollection'' \<longrightarrow> gj_features g = Some fs
        \<longrightarrow> featureList g = Inr fs)
   \<and> (gj_type g \<noteq> js ''FeatureCollection''
        \<longrightarrow> featureList g = Inr [Feature (gj_geometry g)])
   \<and> featureArea_spec (Feature (Some (Polygon (outer # holes))))
        = \<bar>ringSum outer\<bar> * (6378137\<^sup>2 / 2)
   \<and> featureArea_spec (Feature (Some (MultiPolygon polys)))
        = (\<Sum>poly\<leftarrow>polys. polygonArea_spec poly)
   \<and> polygonArea_spec (outer # holes) = \<bar>ringSum outer\<bar> * (6378137\<^sup>2 / 2)
   \<and> featureArea_spec (Feature None) = 0"
proof (intro conjI impI)
  show "getRingArea coords = \<bar>ringSum coords\<bar> * (6378137\<^sup>2 / 2)"
    by (simp add: getRingArea_spec ringArea_spec_def)
  show "calculateGeoJsonArea (Some g) = Inr (\<Sum>f\<leftarrow>fs. featureArea_spec f)"
    if "featureList g = Inr fs" and "list_all hasOuterRings fs"
    using that by (simp add: calculateGeoJsonArea_def featuresArea_spec)
  show "featureList g = Inr fs" if "gj_type g = js ''FeatureCollection''" and "gj_features g = Some fs"
    using that by (simp add: featureList_def)
  show "featureList g = Inr [Feature (gj_geometry g)]" if "gj_type g \<noteq> js ''FeatureCollection''"
    using that by (simp add: featureList_def)
  show "featureArea_spec (Feature (Some (Polygon (outer # holes))))
        = \<bar>ringSum outer\<bar> * (6378137\<^sup>2 / 2)"
    by (simp add: featureArea_spec_def ringArea_spec_def)
  show "featureArea_spec (Feature (Some (MultiPolygon polys)))
        = (\<Sum>poly\<leftarrow>polys. polygonArea_spec poly)"
    by (simp add: featureArea_spec_def)
  show "polygonArea_spec (outer # holes) = \<bar>ringSum outer\<bar> * (6378137\<^sup>2 / 2)"
    by (simp add: ringArea_spec_def)
  show "featureArea_spec (Feature None) = 0"
    by (simp add: featureArea_spec_def)
qed

theorem C6_area_formula_witness:
  "calculateGeoJsonArea (Some exampleCollection) = Inr (\<bar>ringSum triangle\<bar> * (6378137\<^sup>2 / 2))"
proof -
  have t: "gj_type exampleCollection = js ''FeatureCollection''"
    and f: "gj_features exampleCollection = Some [Feature (Some (Polygon [triangle]))]"
    by (simp_all add: exampleCollection_def)
  have h: "list_all hasOuterRings [Feature (Some (Polygon [triangle]))]"
    by (simp add: hasOuterRings_def)
  note c = C6_area_formula [of _ exampleCollection "[Feature (Some (Polygon [triangle]))]"
      triangle "[]"]
  from c t f have "featureList exampleCollection = Inr [Feature (Some (Polygon [triangle]))]"
    by blast
  with c h have "calculateGeoJsonArea (Some exampleCollection)
      = Inr (\<Sum>f\<leftarrow>[Feature (Some (Polygon [triangle]))]. featureArea_spec f)"
    by blast
  with c show ?thesis by simp
qed


text \<open>
  C10, the claim as stated: the area function is total and returns a
  non-negative number on degenerate geometries. It is not total: on a polygon
  whose coordinate array is empty, \<open>geom.coordinates[0]\<close> is \<open>undefined\<close> and
  reading its \<open>length\<close> throws.
\<close>

theorem C10_empty_polygon_throws:
  "calculateGeoJsonArea (Some emptyPolygonCollection) = Inl undefinedError"
  by (simp add: calculateGeoJsonArea_def emptyPolygonCollection_def featureList_def
      outerRingArea_def)


text \<open>
  C10, amended. A ring of fewer than three vertices contributes exactly 0; a
  feature without a geometry contributes nothing, wherever it stands in the
  collection; the area of an absent geometry is 0; and on every GeoJSON value
  whose feature list can be read and whose polygons each have an outer ring, the
  area function returns a number, and that number is not negative.
\<close>

theorem C10_degenerate_geometries:
  "(length coords < 3 \<longrightarrow> getRingArea coords = 0)
   \<and> 0 \<le> getRingArea coords
   \<and> featuresArea (fs1 @ Feature None # fs2) acc = featuresArea (fs1 @ fs2) acc
   \<and> calculateGeoJsonArea None = Inr 0
   \<and> (featureList g = Inr fs \<longrightarrow> list_all hasOuterRings fs
        \<longrightarrow> (\<exists>a. calculateGeoJsonArea (Some g) = Inr a \<and> 0 \<le> a))"
proof (intro conjI impI)
  show "getRingArea coords = 0" if "length coords < 3"
    using that by (simp add: getRingArea_def)
  show "0 \<le> getRingArea coords"
    by (simp add: getRingArea_def)
  show "featuresArea (fs1 @ Feature None # fs2) acc = featuresArea (fs1 @ fs2) acc"
    by (rule featuresArea_skip)
  show "calculateGeoJsonArea None = Inr 0"
    by (simp add: calculateGeoJsonArea_def)
  show "\<exists>a. calculateGeoJsonArea (Some g) = Inr a \<and> 0 \<le> a"
    if "featureList g = Inr fs" and "list_all hasOuterRings fs"
    using that
    by (auto simp: calculateGeoJsonArea_def featuresArea_spec featureArea_spec_nonneg
        intro!: sum_list_nonneg)
qed

theorem C10_degenerate_geometries_witness:
  "getRingArea [(0, 0), (1, 1)] = 0
   \<and> (\<exists>a. calculateGeoJsonArea (Some exampleCollection) = Inr a \<and> 0 \<le> a)"
proof -
  have l: "length [(0::real, 0::real), (1, 1)] < 3" by simp
  have f: "featureList exampleCollection = Inr [Feature (Some (Polygon [triangle]))]"
    by (simp add: exampleCollection_def featureList_def)
  have h: "list_all hasOuterRings [Feature (Some (Polygon [triangle]))]"
    by (simp add: hasOuterRings_def)
  from C10_degenerate_geometries [of "[(0, 0), (1, 1)]" "[]" "[]" 0 exampleCollection
      "[Feature (Some (Polygon [triangle]))]"] l f h
  show ?thesis by blast
qed



section \<open>The display of an area\<close>







lemma divExample_nearest:
  "\<bar>divExample (40001 / 2) 10000 - (40001 / 2) / 10000\<bar> \<le> 1 / 2 ^ 52"
  by (simp add: divExample_def)





section \<open>The names of the track files\<close>

lemma fileNameChar_not_space: "isFileNameChar c \<Longrightarrow> \<not> isSpace c"
  by (auto simp: isFileNameChar_def isSpace_def isLineTerminator_def isLowerAZ_def
      isUpperAZ_def isDigit_def)

lemma replaceWhitespace_no_space:
  "\<forall>c\<in>set s. \<not> isSpace c \<Longrightarrow> replaceWhitespace s = s"
  by (induction s) simp_all

lemma replaceWhitespace_run:
  assumes "\<forall>c\<in>set a. \<not> isSpace c" and "ws \<noteq> []" and "\<forall>c\<in>set ws. isSpace c"
    and "b = [] \<or> \<not> isSpace (hd b)"
  shows "replaceWhitespace (a @ ws @ b) = a @ [95] @ replaceWhitespace b"
  using assms(1)
proof (induction a)
  case Nil
  from assms(2) obtain c ws' where ws: "ws = c # ws'" by (cases ws) auto
  with assms(3) have c: "isSpace c" and ws': "\<forall>x\<in>set ws'. isSpace x" by simp_all
  from ws' have "dropWhile isSpace (ws' @ b) = dropWhile isSpace b"
    by (simp add: dropWhile_append2)
  also from assms(4) have "dropWhile isSpace b = b" by (cases b) auto
  finally show ?case using c by (simp add: ws)
next
  case (Cons x a)
  then show ?case by simp
qed

lemma cleanName_safe: "\<forall>c\<in>set (cleanName p). isFileNameChar c"
  by (simp add: cleanName_def stripUnsafe_def)

lemma cleanName_of_clean_fields:
  assumes "list_all isFileNameChar (communeName p @ section' p @ numero p)"
  shows "cleanName p = communeName p @ [45] @ section' p @ [45] @ numero p"
proof -
  have h: "isFileNameChar 45" by (simp add: isFileNameChar_def)
  from assms h have all: "\<forall>c\<in>set (communeName p @ [45] @ section' p @ [45] @ numero p). isFileNameChar c"
    by (auto simp: list_all_iff)
  then have "\<forall>c\<in>set (communeName p @ [45] @ section' p @ [45] @ numero p). \<not> isSpace c"
    using fileNameChar_not_space by blast
  then have "replaceWhitespace (communeName p @ [45] @ section' p @ [45] @ numero p)
      = communeName p @ [45] @ section' p @ [45] @ numero p"
    by (rule replaceWhitespace_no_space)
  with all show ?thesis
    by (simp add: cleanName_def stripUnsafe_def)
qed

lemma zipFiles_names:
  "zipFiles numStr ps = Inr files \<Longrightarrow> map fst files = map (\<lambda>p. cleanName p @ js ''.gpx'') ps"
  by (induction ps arbitrary: files) (auto split: sum.splits)

lemma handleExportGPX_names:
  "handleExportGPX numStr ps = Inr (Zip files) \<Longrightarrow>
     map fst files = map (\<lambda>p. cleanName p @ js ''.gpx'')
        (filter (\<lambda>p. status p = Success \<and> geoJson p \<noteq> None) ps)"
  by (auto simp: handleExportGPX_def Let_def zipFiles_names split: if_splits sum.splits)

lemma createGpxContent_name:
  assumes "createGpxContent numStr p = Inr doc" and "geoJson p \<noteq> None"
  shows "\<exists>rest. doc =
      js ''<?xml version='' @ dq @ js ''1.0'' @ dq @ js '' encoding='' @ dq
        @ js ''UTF-8'' @ dq @ js ''?>'' @ [10]
      @ js ''<gpx version='' @ dq @ js ''1.1'' @ dq @ js '' creator='' @ dq
        @ js ''CadastreViz'' @ dq @ js ''>'' @ [10]
      @ js ''  <metadata>'' @ [10]
      @ js ''    <name>'' @ gpxName p @ js ''</name>'' @ rest"
  using assms
  by (auto simp: createGpxContent_def Let_def split: option.splits sum.splits)


lemma exampleSuccess_fields:
  "communeName exampleSuccess = js ''SCHORBACH''" "section' exampleSuccess = js ''C''"
  "numero exampleSuccess = js ''584''" "status exampleSuccess = Success"
  "geoJson exampleSuccess = Some exampleCollection"
  by (simp_all add: exampleSuccess_def exampleParcel_def initialParcel_def exampleQuery_def)

lemma cleanName_example: "cleanName exampleSuccess = js ''SCHORBACH-C-584''"
  by (simp add: cleanName_def exampleSuccess_fields stripUnsafe_def js_def isFileNameChar_def
      isSpace_def isLineTerminator_def isLowerAZ_def isUpperAZ_def isDigit_def)

lemma export_example:
  "\<exists>doc. handleExportGPX numStrIntegral [exampleSuccess]
      = Inr (Zip [(js ''SCHORBACH-C-584.gpx'', doc)])"
  by (simp add: handleExportGPX_def exampleSuccess_fields createGpxContent_def featureList_def
      exampleCollection_def cleanName_example Let_def js_def)

lemma gpx_example: "\<exists>doc. createGpxContent numStrIntegral exampleSuccess = Inr doc"
  by (simp add: exampleSuccess_fields createGpxContent_def featureList_def
      exampleCollection_def Let_def)

text \<open>
  C7, the claim as stated: the file name of a track is derived from the name
  string of the document's metadata, \<open>communeName section numero\<close>, by turning
  whitespace into underscores and stripping unsafe characters. For the record
  SCHORBACH, C, 584 that would be \<open>SCHORBACH_C_584\<close>; the file name of the
  source is \<open>SCHORBACH-C-584\<close>.
\<close>

theorem C7_name_differs_from_metadata_name:
  "cleanName exampleSuccess = js ''SCHORBACH-C-584''
   \<and> gpxName exampleSuccess = js ''SCHORBACH C 584''
   \<and> stripUnsafe (replaceWhitespace (gpxName exampleSuccess)) = js ''SCHORBACH_C_584''"
  by (simp add: cleanName_def gpxName_def exampleSuccess_fields stripUnsafe_def js_def
      isFileNameChar_def isSpace_def isLineTerminator_def isLowerAZ_def isUpperAZ_def
      isDigit_def)


text \<open>
  C7, amended. The metadata name of the document is the three fields joined by
  spaces; the file name is derived from another string, the three fields joined
  by hyphens: every maximal run of whitespace in it becomes one underscore, then
  every character outside \<open>[a-zA-Z0-9_.-]\<close> is stripped, and \<open>.gpx\<close> is
  appended. So the name has safe characters only, it is the fields joined by
  hyphens when the fields have safe characters only, and the archive has one
  entry of that name per record with status \<open>success\<close> and a geometry, in
  order.
\<close>

theorem C7_file_name:
  "cleanName p
     = stripUnsafe (replaceWhitespace (communeName p @ [45] @ section' p @ [45] @ numero p))
   \<and> gpxName p = communeName p @ [32] @ section' p @ [32] @ numero p
   \<and> (\<forall>c\<in>set (cleanName p). isFileNameChar c)
   \<and> (list_all isFileNameChar (communeName p @ section' p @ numero p)
        \<longrightarrow> cleanName p = communeName p @ [45] @ section' p @ [45] @ numero p)
   \<and> ((\<forall>c\<in>set a. \<not> isSpace c) \<longrightarrow> ws \<noteq> [] \<longrightarrow> (\<forall>c\<in>set ws. isSpace c)
        \<longrightarrow> b = [] \<or> \<not> isSpace (hd b)
        \<longrightarrow> replaceWhitespace (a @ ws @ b) = a @ [95] @ replaceWhitespace b)
   \<and> (handleExportGPX numStr ps = Inr (Zip files)
        \<longrightarrow> map fst files = map (\<lambda>p. cleanName p @ js ''.gpx'')
              (filter (\<lambda>p. status p = Success \<and> geoJson p \<noteq> None) ps))
   \<and> (createGpxContent numStr p = Inr doc \<longrightarrow> geoJson p \<noteq> None
        \<longrightarrow> (\<exists>rest. doc =
              js ''<?xml version='' @ dq @ js ''1.0'' @ dq @ js '' encoding='' @ dq
                @ js ''UTF-8'' @ dq @ js ''?>'' @ [10]
              @ js ''<gpx version='' @ dq @ js ''1.1'' @ dq @ js '' creator='' @ dq
                @ js ''CadastreViz'' @ dq @ js ''>'' @ [10]
              @ js ''  <metadata>'' @ [10]
              @ js ''    <name>'' @ gpxName p @ js ''</name>'' @ rest))"
proof (intro conjI impI)
  show "cleanName p
     = stripUnsafe (replaceWhitespace (communeName p @ [45] @ section' p @ [45] @ numero p))"
    by (simp add: cleanName_def)
  show "gpxName p = communeName p @ [32] @ section' p @ [32] @ numero p"
    by (simp add: gpxName_def)
  show "\<forall>c\<in>set (cleanName p). isFileNameChar c"
    by (rule cleanName_safe)
  show "cleanName p = communeName p @ [45] @ section' p @ [45] @ numero p"
    if "list_all isFileNameChar (communeName p @ section' p @ numero p)"
    using that by (rule cleanName_of_clean_fields)
  show "replaceWhitespace (a @ ws @ b) = a @ [95] @ replaceWhitespace b"
    if "\<forall>c\<in>set a. \<not> isSpace c" and "ws \<noteq> []" and "\<forall>c\<in>set ws. isSpace c"
      and "b = [] \<or> \<not> isSpace (hd b)"
    using that by (rule replaceWhitespace_run)
  show "map fst files = map (\<lambda>p. cleanName p @ js ''.gpx'')
              (filter (\<lambda>p. status p = Success \<and> geoJson p \<noteq> None) ps)"
    if "handleExportGPX numStr ps = Inr (Zip files)"
    using that by (rule handleExportGPX_names)
  show "\<exists>rest. doc =
              js ''<?xml version='' @ dq @ js ''1.0'' @ dq @ js '' encoding='' @ dq
                @ js ''UTF-8'' @ dq @ js ''?>'' @ [10]
              @ js ''<gpx version='' @ dq @ js ''1.1'' @ dq @ js '' creator='' @ dq
                @ js ''CadastreViz'' @ dq @ js ''>'' @ [10]
              @ js ''  <metadata>'' @ [10]
              @ js ''    <name>'' @ gpxName p @ js ''</name>'' @ rest"
    if "createGpxContent numStr p = Inr doc" and "geoJson p \<noteq> None"
    using that by (rule createGpxContent_name)
qed

theorem C7_file_name_witness:
  "cleanName exampleSuccess = js ''SCHORBACH-C-584''
   \<and> replaceWhitespace (js ''LA'' @ [32, 9] @ js ''RIVE'') = js ''LA_RIVE''
   \<and> (\<exists>doc. handleExportGPX numStrIntegral [exampleSuccess]
          = Inr (Zip [(cleanName exampleSuccess @ js ''.gpx'', doc)]))
   \<and> (\<exists>doc rest. createGpxContent numStrIntegral exampleSuccess = Inr doc
        \<and> doc = js ''<?xml version='' @ dq @ js ''1.0'' @ dq @ js '' encoding='' @ dq
                @ js ''UTF-8'' @ dq @ js ''?>'' @ [10]
              @ js ''<gpx version='' @ dq @ js ''1.1'' @ dq @ js '' creator='' @ dq
                @ js ''CadastreViz'' @ dq @ js ''>'' @ [10]
              @ js ''  <metadata>'' @ [10]
              @ js ''    <name>SCHORBACH C 584</name>'' @ rest)"
proof -
  from export_example obtain zdoc where
    e: "handleExportGPX numStrIntegral [exampleSuccess]
          = Inr (Zip [(js ''SCHORBACH-C-584.gpx'', zdoc)])"
    by blast
  from gpx_example obtain gdoc where g: "createGpxContent numStrIntegral exampleSuccess = Inr gdoc"
    by blast
  have gj: "geoJson exampleSuccess \<noteq> None" by (simp add: exampleSuccess_fields)
  have safe: "list_all isFileNameChar
      (communeName exampleSuccess @ section' exampleSuccess @ numero exampleSuccess)"
    by (simp add: exampleSuccess_fields js_def isFileNameChar_def isLowerAZ_def isUpperAZ_def
        isDigit_def)
  note t = C7_file_name [where p = exampleSuccess and a = "js ''LA''" and ws = "[32, 9]"
      and b = "js ''RIVE''" and numStr = numStrIntegral and ps = "[exampleSuccess]"
      and files = "[(js ''SCHORBACH-C-584.gpx'', zdoc)]" and doc = gdoc]
  from t safe have "cleanName exampleSuccess
      = communeName exampleSuccess @ [45] @ section' exampleSuccess @ [45] @ numero exampleSuccess"
    by blast
  then have a: "cleanName exampleSuccess = js ''SCHORBACH-C-584''"
    by (simp add: exampleSuccess_fields js_def)
  have h: "\<forall>c\<in>set (js ''LA''). \<not> isSpace c" "[32, 9] \<noteq> ([]::nat list)"
    "\<forall>c\<in>set [32, 9]. isSpace c" "js ''RIVE'' = [] \<or> \<not> isSpace (hd (js ''RIVE''))"
    by (simp_all add: js_def isSpace_def isLineTerminator_def)
  have h5: "\<forall>c\<in>set (js ''RIVE''). \<not> isSpace c"
    by (simp add: js_def isSpace_def isLineTerminator_def)
  from t h have "replaceWhitespace (js ''LA'' @ [32, 9] @ js ''RIVE'')
      = js ''LA'' @ [95] @ replaceWhitespace (js ''RIVE'')"
    by blast
  also from h5 have "replaceWhitespace (js ''RIVE'') = js ''RIVE''"
    by (rule replaceWhitespace_no_space)
  finally have b: "replaceWhitespace (js ''LA'' @ [32, 9] @ js ''RIVE'') = js ''LA_RIVE''"
    by (simp add: js_def)
  from t e have "map fst [(js ''SCHORBACH-C-584.gpx'', zdoc)]
      = map (\<lambda>p. cleanName p @ js ''.gpx'')
          (filter (\<lambda>p. status p = Success \<and> geoJson p \<noteq> None) [exampleSuccess])"
    by blast
  then have "js ''SCHORBACH-C-584.gpx'' = cleanName exampleSuccess @ js ''.gpx''"
    by (simp add: exampleSuccess_fields)
  with e have c: "\<exists>doc. handleExportGPX numStrIntegral [exampleSuccess]
          = Inr (Zip [(cleanName exampleSuccess @ js ''.gpx'', doc)])"
    by simp
  from t g gj have "\<exists>rest. gdoc =
              js ''<?xml version='' @ dq @ js ''1.0'' @ dq @ js '' encoding='' @ dq
                @ js ''UTF-8'' @ dq @ js ''?>'' @ [10]
              @ js ''<gpx version='' @ dq @ js ''1.1'' @ dq @ js '' creator='' @ dq
                @ js ''CadastreViz'' @ dq @ js ''>'' @ [10]
              @ js ''  <metadata>'' @ [10]
              @ js ''    <name>'' @ gpxName exampleSuccess @ js ''</name>'' @ rest"
    by blast
  moreover have "js ''    <name>'' @ gpxName exampleSuccess @ js ''</name>'' @ rest
      = js ''    <name>SCHORBACH C 584</name>'' @ rest" for rest
    by (simp add: gpxName_def exampleSuccess_fields js_def)
  ultimately have d: "\<exists>doc rest. createGpxContent numStrIntegral exampleSuccess = Inr doc
        \<and> doc = js ''<?xml version='' @ dq @ js ''1.0'' @ dq @ js '' encoding='' @ dq
                @ js ''UTF-8'' @ dq @ js ''?>'' @ [10]
              @ js ''<gpx version='' @ dq @ js ''1.1'' @ dq @ js '' creator='' @ dq
                @ js ''CadastreViz'' @ dq @ js ''>'' @ [10]
              @ js ''  <metadata>'' @ [10]
              @ js ''    <name>SCHORBACH C 584</name>'' @ rest"
    using g by auto
  from a b c d show ?thesis by blast
qed


end
